theory Spec2Isabelle
  imports Complex_Main "HOL-Library.Sublist" "HOL-Library.AList" "HOL-Library.Multiset"
begin

section \<open>Python values shared by the components\<close>

text \<open>
  Strings are \<open>string\<close> (lists of 8-bit characters), read as ASCII text: one \<open>char\<close> is
  one code point of the Python \<open>str\<close>.  Scores are Python floats in the source; they are
  modelled as \<open>real\<close>, so rounding is not part of the model.  Every exception the modelled
  code can raise is a constructor of \<open>py_error\<close>; a raising function returns \<open>Inl\<close>.
\<close>

datatype py_error =
    ValueError
  | RuntimeError
  | IndexError
  | AssertionError
  | TypeError
  | OSError
  | OverflowError

subsection \<open>\<open>str\<close> methods\<close>

definition py_isspace :: "char \<Rightarrow> bool" where
  \<comment> \<open>\<open>str.isspace\<close> on ASCII: TAB, LF, VT, FF, CR, the separators 0x1c..0x1f and SPACE.\<close>
  "py_isspace c = (let n = (of_char c :: nat) in (9 \<le> n \<and> n \<le> 13) \<or> (28 \<le> n \<and> n \<le> 32))"

definition py_lower_char :: "char \<Rightarrow> char" where
  "py_lower_char c =
     (let n = (of_char c :: nat) in if 65 \<le> n \<and> n \<le> 90 then char_of (n + 32) else c)"

definition py_lower :: "string \<Rightarrow> string" where
  \<comment> \<open>\<open>s.lower()\<close>\<close>
  "py_lower s = map py_lower_char s"

definition py_strip :: "string \<Rightarrow> string" where
  \<comment> \<open>\<open>s.strip()\<close>: whitespace removed at both ends, the inside untouched.\<close>
  "py_strip s = rev (dropWhile py_isspace (rev (dropWhile py_isspace s)))"

definition py_lstrip_chars :: "string \<Rightarrow> string \<Rightarrow> string" where
  \<comment> \<open>\<open>s.lstrip(chars)\<close>\<close>
  "py_lstrip_chars chars s = dropWhile (\<lambda>c. c \<in> set chars) s"

definition py_startswith :: "string \<Rightarrow> string \<Rightarrow> bool" where
  \<comment> \<open>\<open>s.startswith(p)\<close>, written \<open>py_startswith p s\<close>\<close>
  "py_startswith p s = (take (length p) s = p)"

fun py_in :: "string \<Rightarrow> string \<Rightarrow> bool" where
  \<comment> \<open>\<open>sub in s\<close>: substring test\<close>
  "py_in sub [] = (sub = [])"
| "py_in sub (c # cs) = (py_startswith sub (c # cs) \<or> py_in sub cs)"

fun py_split_on :: "char \<Rightarrow> string \<Rightarrow> string \<Rightarrow> string list" where
  \<comment> \<open>\<open>s.split(sep)\<close> for a one-character separator; the second argument is the piece
      read so far.\<close>
  "py_split_on sep cur [] = [cur]"
| "py_split_on sep cur (c # cs) =
     (if c = sep then cur # py_split_on sep [] cs else py_split_on sep (cur @ [c]) cs)"

definition py_sorted_reverse :: "('a \<Rightarrow> real) \<Rightarrow> 'a list \<Rightarrow> 'a list" where
  \<comment> \<open>\<open>sorted(xs, key=key, reverse=True)\<close> and \<open>xs.sort(key=key, reverse=True)\<close>:
      descending by key, insertion order kept among equal keys.\<close>
  "py_sorted_reverse key xs = sort_key (\<lambda>x. - key x) xs"

fun py_slice_to :: "'a list \<Rightarrow> int \<Rightarrow> 'a list" where
  \<comment> \<open>\<open>xs[:n]\<close>: a negative bound counts from the end.\<close>
  "py_slice_to xs n = (if n < 0 then take (nat (int (length xs) + n)) xs else take (nat n) xs)"

subsection \<open>The regular-expression library\<close>

text \<open>
  \<open>re.search\<close> belongs to the Python standard library, not to the repository.  The
  components take it as a parameter.  In the ranker and the safety checker the patterns
  are literals of the source, so the parameter answers whether a match was found.  In
  the error fixer the patterns come from the pattern store: the parameter takes the
  flag of the call (\<open>re.IGNORECASE\<close>) and answers with one of the four things the call can
  do: find a match, find none, raise \<open>re.error\<close> (which \<open>find_fixes\<close> catches), or raise
  another exception (which it does not catch).

  \<open>re_search\<close> below is a reference matcher for the fragment of the syntax that the
  pattern tables of the repository use: literal characters, \<open>.\<close>, \<open>\s\<close>, \<open>\b\<close>,
  escaped punctuation, bracket sets of literal characters, the postfix operators \<open>+\<close>
  and \<open>*\<close>, \<open>^\<close> and top-level \<open>|\<close>.  It instantiates the parameter wherever a theorem is
  run on concrete input, always on patterns of this fragment; a pattern outside the
  fragment is answered with \<open>None\<close>.  The general theorems hold for every function in
  place of the parameter.  \<open>re_search_py\<close> adds the check that the pattern parser makes
  on a repetition count: \<open>{n}\<close> with \<open>n\<close> at or above \<open>MAXREPEAT\<close> raises OverflowError.
  It is run on patterns that are in the fragment apart from such a count; the forms
  \<open>{m,n}\<close> and a pattern with a syntax error in front of the count are outside it.
\<close>

abbreviation bs :: "string \<Rightarrow> string" where
  \<comment> \<open>a backslash in front of the text: \<open>bs ''bgit''\<close> is the pattern text \<open>\bgit\<close>\<close>
  "bs s \<equiv> CHR 0x5C # s"

type_synonym re_found = "string \<Rightarrow> string \<Rightarrow> bool"

datatype re_flag = NOFLAG | IGNORECASE

datatype re_outcome = Found | NotFound | ReError | Raised py_error

type_synonym re_engine = "re_flag \<Rightarrow> string \<Rightarrow> string \<Rightarrow> re_outcome"

datatype re_atom = ALit char | AAny | ASpace | ASet "char list"

datatype re_tok = TAtom re_atom | TPlus | TStar | TBar | TBol | TWordB

datatype re_item = One re_atom | Plus re_atom | Star re_atom | Bol | WordB

definition re_escapable :: "char \<Rightarrow> bool" where
  "re_escapable c = (c \<in> set ''.-/|+*?()[]{}^$ :'' \<or> c = CHR 0x5C)"

fun re_lex :: "string \<Rightarrow> re_tok list option"
and re_lex_set :: "char list \<Rightarrow> string \<Rightarrow> re_tok list option" where
  "re_lex [] = Some []"
| "re_lex (c # cs) =
     (if c = CHR 0x5C then
        (case cs of
           [] \<Rightarrow> None
         | e # es \<Rightarrow>
             if e = CHR ''s'' then map_option ((#) (TAtom ASpace)) (re_lex es)
             else if e = CHR ''b'' then map_option ((#) TWordB) (re_lex es)
             else if re_escapable e then map_option ((#) (TAtom (ALit e))) (re_lex es)
             else None)
      else if c = CHR ''['' then re_lex_set [] cs
      else if c = CHR ''.'' then map_option ((#) (TAtom AAny)) (re_lex cs)
      else if c = CHR ''^'' then map_option ((#) TBol) (re_lex cs)
      else if c = CHR ''+'' then map_option ((#) TPlus) (re_lex cs)
      else if c = CHR ''*'' then map_option ((#) TStar) (re_lex cs)
      else if c = CHR ''|'' then map_option ((#) TBar) (re_lex cs)
      else if c \<in> set ''?(){}$]'' then None
      else map_option ((#) (TAtom (ALit c))) (re_lex cs))"
| "re_lex_set acc [] = None"
| "re_lex_set acc (c # cs) =
     (if c = CHR '']'' then
        (if acc = [] then None else map_option ((#) (TAtom (ASet acc))) (re_lex cs))
      else if c \<in> set ''[^-'' \<or> c = CHR 0x5C then None
      else re_lex_set (acc @ [c]) cs)"

definition re_push :: "re_item \<Rightarrow> re_item list list option \<Rightarrow> re_item list list option" where
  "re_push i r =
     (case r of None \<Rightarrow> None | Some [] \<Rightarrow> None | Some (alt # alts) \<Rightarrow> Some ((i # alt) # alts))"

fun re_build :: "re_tok list \<Rightarrow> re_item list list option" where
  "re_build [] = Some [[]]"
| "re_build (TBar # ts) = map_option ((#) []) (re_build ts)"
| "re_build (TAtom a # TPlus # ts) = re_push (Plus a) (re_build ts)"
| "re_build (TAtom a # TStar # ts) = re_push (Star a) (re_build ts)"
| "re_build (TAtom a # ts) = re_push (One a) (re_build ts)"
| "re_build (TBol # ts) = re_push Bol (re_build ts)"
| "re_build (TWordB # ts) = re_push WordB (re_build ts)"
| "re_build (TPlus # ts) = None"
| "re_build (TStar # ts) = None"

definition re_is_word :: "char \<Rightarrow> bool" where
  \<comment> \<open>\<open>\w\<close> on ASCII: letters, digits and the underscore\<close>
  "re_is_word c =
     (let n = (of_char c :: nat) in
        (48 \<le> n \<and> n \<le> 57) \<or> (65 \<le> n \<and> n \<le> 90) \<or> (97 \<le> n \<and> n \<le> 122) \<or> n = 95)"

definition re_atom_ok :: "bool \<Rightarrow> re_atom \<Rightarrow> char \<Rightarrow> bool" where
  \<comment> \<open>the first argument is the IGNORECASE flag\<close>
  "re_atom_ok ci a c =
     (case a of
        ALit x \<Rightarrow> if ci then py_lower_char c = py_lower_char x else c = x
      | AAny \<Rightarrow> c \<noteq> CHR 0x0A
      | ASpace \<Rightarrow> py_isspace c
      | ASet xs \<Rightarrow> if ci then py_lower_char c \<in> set (map py_lower_char xs) else c \<in> set xs)"

definition re_boundary :: "char option \<Rightarrow> string \<Rightarrow> bool" where
  \<comment> \<open>\<open>\b\<close> between the character before the position and the one after it\<close>
  "re_boundary prev s =
     ((case prev of None \<Rightarrow> False | Some p \<Rightarrow> re_is_word p)
        \<noteq> (case s of [] \<Rightarrow> False | c # _ \<Rightarrow> re_is_word c))"

function re_match_here :: "bool \<Rightarrow> re_item list \<Rightarrow> char option \<Rightarrow> string \<Rightarrow> bool" where
  "re_match_here ci [] prev s = True"
| "re_match_here ci (Bol # is) prev s = (prev = None \<and> re_match_here ci is prev s)"
| "re_match_here ci (WordB # is) prev s = (re_boundary prev s \<and> re_match_here ci is prev s)"
| "re_match_here ci (One a # is) prev [] = False"
| "re_match_here ci (One a # is) prev (c # cs) =
     (re_atom_ok ci a c \<and> re_match_here ci is (Some c) cs)"
| "re_match_here ci (Plus a # is) prev [] = False"
| "re_match_here ci (Plus a # is) prev (c # cs) =
     (re_atom_ok ci a c \<and> re_match_here ci (Star a # is) (Some c) cs)"
| "re_match_here ci (Star a # is) prev [] = re_match_here ci is prev []"
| "re_match_here ci (Star a # is) prev (c # cs) =
     (re_match_here ci is prev (c # cs)
      \<or> (re_atom_ok ci a c \<and> re_match_here ci (Star a # is) (Some c) cs))"
  by pat_completeness auto
termination
  by (relation "measures [\<lambda>(ci, is, prev, s). length s, \<lambda>(ci, is, prev, s). length is]") auto

fun re_search_from :: "bool \<Rightarrow> re_item list list \<Rightarrow> char option \<Rightarrow> string \<Rightarrow> bool" where
  "re_search_from ci alts prev [] = list_ex (\<lambda>alt. re_match_here ci alt prev []) alts"
| "re_search_from ci alts prev (c # cs) =
     (list_ex (\<lambda>alt. re_match_here ci alt prev (c # cs)) alts
      \<or> re_search_from ci alts (Some c) cs)"

definition re_search :: "bool \<Rightarrow> string \<Rightarrow> string \<Rightarrow> bool option" where
  \<comment> \<open>\<open>re.search(pattern, text, flags) is not None\<close>; \<open>None\<close> when the pattern is rejected\<close>
  "re_search ci pattern text =
     (case re_lex pattern of
        None \<Rightarrow> None
      | Some ts \<Rightarrow>
          (case re_build ts of
             None \<Rightarrow> None
           | Some alts \<Rightarrow> Some (re_search_from ci alts None text)))"

definition re_found_in :: "bool \<Rightarrow> string \<Rightarrow> string \<Rightarrow> bool" where
  "re_found_in ci pattern text = (re_search ci pattern text = Some True)"

definition MAXREPEAT :: nat where
  \<comment> \<open>\<open>_sre.MAXREPEAT\<close>, the largest repetition count the parser accepts, is one less\<close>
  "MAXREPEAT = 4294967295"

datatype re_scan = InText | InEscape | InSet | InSetEscape | InCount "nat option"

definition re_digit :: "char \<Rightarrow> nat option" where
  "re_digit c =
     (let n = (of_char c :: nat) in if 48 \<le> n \<and> n \<le> 57 then Some (n - 48) else None)"

fun re_count_overflow :: "re_scan \<Rightarrow> string \<Rightarrow> bool" where
  \<comment> \<open>reads the pattern from the left and answers whether a repetition \<open>{n}\<close> outside
      an escape and outside a bracket set has \<open>n \<ge> MAXREPEAT\<close>; a brace that is not closed
      after its digits is a literal character\<close>
  "re_count_overflow st [] = False"
| "re_count_overflow InEscape (c # cs) = re_count_overflow InText cs"
| "re_count_overflow InSetEscape (c # cs) = re_count_overflow InSet cs"
| "re_count_overflow InSet (c # cs) =
     (if c = CHR 0x5C then re_count_overflow InSetEscape cs
      else if c = CHR '']'' then re_count_overflow InText cs
      else re_count_overflow InSet cs)"
| "re_count_overflow InText (c # cs) =
     (if c = CHR 0x5C then re_count_overflow InEscape cs
      else if c = CHR ''['' then re_count_overflow InSet cs
      else if c = CHR ''{'' then re_count_overflow (InCount None) cs
      else re_count_overflow InText cs)"
| "re_count_overflow (InCount n) (c # cs) =
     (case re_digit c of
        Some d \<Rightarrow>
          re_count_overflow (InCount (Some (10 * (case n of None \<Rightarrow> 0 | Some v \<Rightarrow> v) + d))) cs
      | None \<Rightarrow>
          if c = CHR ''}'' then
            (case n of None \<Rightarrow> False | Some v \<Rightarrow> MAXREPEAT \<le> v) \<or> re_count_overflow InText cs
          else if c = CHR 0x5C then re_count_overflow InEscape cs
          else if c = CHR ''['' then re_count_overflow InSet cs
          else if c = CHR ''{'' then re_count_overflow (InCount None) cs
          else re_count_overflow InText cs)"

definition re_search_py :: re_engine where
  \<comment> \<open>\<open>re.search(pattern, text, flags)\<close> with its four outcomes, on the fragment\<close>
  "re_search_py flag pattern text =
     (if re_count_overflow InText pattern then Raised OverflowError
      else case re_search (flag = IGNORECASE) pattern text of
             None \<Rightarrow> ReError
           | Some found \<Rightarrow> if found then Found else NotFound)"

section \<open>Error fixer (\<open>backend/error_fixes.py\<close>)\<close>

record error_pattern =
  p_pattern :: string
  p_category :: string
  p_fixes :: "string list"
  p_description :: string

record error_match =
  m_category :: string
  m_description :: string
  m_fixes :: "string list"
  confidence :: real

definition default_patterns :: "error_pattern list" where
  \<comment> \<open>the table written by \<open>_create_default_database\<close>\<close>
  "default_patterns =
   [ \<lparr>p_pattern = ''permission denied'', p_category = ''permissions'',
      p_fixes = [''Try using sudo: sudo <command>'',
                 ''Check file permissions: ls -l <file>'',
                 ''Change permissions: chmod +x <file>''],
      p_description = ''Permission error when executing command''\<rparr>,
     \<lparr>p_pattern = ''command not found'', p_category = ''not_found'',
      p_fixes = [''Install the command using your package manager'',
                 ''Check if the command is in your PATH: echo $PATH'',
                 ''Try using the full path to the executable''],
      p_description = ''Command not found in PATH''\<rparr>,
     \<lparr>p_pattern = ''No such file or directory'', p_category = ''file_not_found'',
      p_fixes = [''Check the file path: ls <directory>'',
                 ''Create the directory: mkdir -p <directory>'',
                 ''Verify you're in the correct directory: pwd''],
      p_description = ''File or directory does not exist''\<rparr>,
     \<lparr>p_pattern = ''git.*Your local changes.*would be overwritten'', p_category = ''git'',
      p_fixes = [''Stash your changes: git stash'',
                 ''Commit your changes: git add . && git commit -m 'message'' @ [CHR 0x27],
                 ''Discard changes: git checkout -- .''],
      p_description = ''Git merge/pull would overwrite local changes''\<rparr>,
     \<lparr>p_pattern = ''git.*fatal: not a git repository'', p_category = ''git'',
      p_fixes = [''Initialize git repository: git init'',
                 ''Clone a repository: git clone <url>'',
                 ''Navigate to a git repository directory''],
      p_description = ''Not inside a git repository''\<rparr>,
     \<lparr>p_pattern = ''npm.*EACCES.*permission denied'', p_category = ''npm'',
      p_fixes = [''Fix npm permissions: sudo chown -R $USER ~/.npm'',
                 ''Use npx instead of global install'',
                 ''Configure npm to use a different directory''],
      p_description = ''NPM permission error''\<rparr>,
     \<lparr>p_pattern = ''pip.*externally-managed-environment'', p_category = ''python'',
      p_fixes = [''Use a virtual environment: python -m venv venv && source venv/bin/activate'',
                 ''Use pipx for tools: pipx install <package>'',
                 ''Use --break-system-packages (not recommended)''],
      p_description = ''PIP externally managed environment (PEP 668)''\<rparr>,
     \<lparr>p_pattern = ''docker.*Cannot connect to the Docker daemon'', p_category = ''docker'',
      p_fixes = [''Start Docker daemon: sudo systemctl start docker'',
                 ''Add user to docker group: sudo usermod -aG docker $USER'',
                 ''Check Docker status: sudo systemctl status docker''],
      p_description = ''Cannot connect to Docker daemon''\<rparr>,
     \<lparr>p_pattern = ''disk.*full|No space left on device'', p_category = ''disk'',
      p_fixes = [''Check disk usage: df -h'',
                 ''Find large files: du -sh * | sort -h'',
                 ''Clean package cache (Ubuntu/Debian): sudo apt-get clean'',
                 ''Clean Docker: docker system prune -a''],
      p_description = ''Disk full error''\<rparr>,
     \<lparr>p_pattern = ''port.*already in use'', p_category = ''network'',
      p_fixes = [''Find process using port: lsof -i :<port>'',
                 ''Kill process: kill -9 <pid>'',
                 ''Use a different port in your configuration''],
      p_description = ''Port already in use''\<rparr> ]"

definition calculate_confidence :: "string \<Rightarrow> string \<Rightarrow> string option \<Rightarrow> real" where
  \<comment> \<open>\<open>_calculate_confidence\<close>; \<open>if last_command:\<close> is false for \<open>None\<close> and for the empty string\<close>
  "calculate_confidence pattern error_message last_command =
     (let confidence = 0.7;
          confidence = (if length pattern > 30 then confidence + 0.1 else confidence);
          confidence =
            (case last_command of
               None \<Rightarrow> confidence
             | Some lc \<Rightarrow>
                 if lc = [] then confidence
                 else if py_in ''git'' pattern \<and> py_in ''git'' lc then confidence + 0.15
                 else if py_in ''npm'' pattern \<and> py_in ''npm'' lc then confidence + 0.15
                 else if py_in ''docker'' pattern \<and> py_in ''docker'' lc then confidence + 0.15
                 else if py_in ''pip'' pattern \<and> py_in ''pip'' lc then confidence + 0.15
                 else confidence)
      in min confidence 1.0)"

definition build_match :: "error_pattern \<Rightarrow> string \<Rightarrow> string option \<Rightarrow> error_match" where
  "build_match pattern_entry error_message last_command =
     \<lparr>m_category = p_category pattern_entry,
      m_description = p_description pattern_entry,
      m_fixes = p_fixes pattern_entry,
      confidence = calculate_confidence (p_pattern pattern_entry) error_message last_command\<rparr>"

fun collect_matches ::
  "re_engine \<Rightarrow> error_pattern list \<Rightarrow> string \<Rightarrow> string option
     \<Rightarrow> py_error + error_match list" where
  \<comment> \<open>the loop of \<open>find_fixes\<close> over \<open>self.error_patterns\<close> in order: a pattern on which
      \<open>re.search(pattern, error_message, re.IGNORECASE)\<close> raises \<open>re.error\<close> is skipped;
      any other exception leaves the loop and the function\<close>
  "collect_matches re [] error_message last_command = Inr []"
| "collect_matches re (pattern_entry # rest) error_message last_command =
     (case re IGNORECASE (p_pattern pattern_entry) error_message of
        Found \<Rightarrow>
          (case collect_matches re rest error_message last_command of
             Inl e \<Rightarrow> Inl e
           | Inr matches \<Rightarrow>
               Inr (build_match pattern_entry error_message last_command # matches))
      | NotFound \<Rightarrow> collect_matches re rest error_message last_command
      | ReError \<Rightarrow> collect_matches re rest error_message last_command
      | Raised e \<Rightarrow> Inl e)"

definition find_fixes ::
  "re_engine \<Rightarrow> error_pattern list \<Rightarrow> string \<Rightarrow> string option
     \<Rightarrow> py_error + error_match list" where
  \<comment> \<open>the second argument is \<open>self.error_patterns\<close>, the loaded pattern store\<close>
  "find_fixes re error_patterns error_message last_command =
     (case collect_matches re error_patterns error_message last_command of
        Inl e \<Rightarrow> Inl e
      | Inr matches \<Rightarrow> Inr (py_sorted_reverse confidence matches))"

definition get_quick_fix ::
  "re_engine \<Rightarrow> error_pattern list \<Rightarrow> string \<Rightarrow> string option
     \<Rightarrow> py_error + string option" where
  \<comment> \<open>an exception of \<open>find_fixes\<close> propagates; \<open>matches[0]["fixes"][0]\<close> raises
      IndexError on an empty list of fixes\<close>
  "get_quick_fix re error_patterns error_message last_command =
     (case find_fixes re error_patterns error_message last_command of
        Inl e \<Rightarrow> Inl e
      | Inr matches \<Rightarrow>
          (case matches of
             [] \<Rightarrow> Inr None
           | m # _ \<Rightarrow>
               if confidence m > 0.6 then
                 (case m_fixes m of [] \<Rightarrow> Inl IndexError | f # _ \<Rightarrow> Inr (Some f))
               else Inr None))"

text \<open>The confidence rule as the specification words it.\<close>

definition tool_keywords :: "string list" where
  "tool_keywords = [''git'', ''npm'', ''docker'', ''pip'']"

definition spec_confidence :: "string \<Rightarrow> string option \<Rightarrow> real" where
  "spec_confidence pattern last_command =
     min 1
       (0.7
        + (if length pattern > 30 then 0.1 else 0)
        + (if list_ex (\<lambda>kw. py_in kw (case_option [] id last_command) \<and> py_in kw pattern)
                tool_keywords
           then 0.15 else 0))"

section \<open>Safety checker (\<open>backend/safety.py\<close>)\<close>

datatype safety_level = SAFE | WARNING | DANGEROUS

record safety_assessment =
  level :: safety_level
  warning :: "string option"
  reasons :: "string list"

definition DESTRUCTIVE_COMMANDS :: "(string \<times> string list) list" where
  "DESTRUCTIVE_COMMANDS =
   [ (''rm'', [''rm -rf'', ''rm -fr'', ''rm -r'', ''rm -f'']),
     (''dd'', [''dd if='', ''dd of='']),
     (''mkfs'', [''mkfs.'', ''mkfs '']),
     (''fdisk'', [''fdisk'']),
     (''parted'', [''parted'']),
     (''>'', [''> /dev/'']),
     (''format'', [''format'']),
     (''shred'', [''shred'']),
     (''wipefs'', [''wipefs'']) ]"

definition SUDO_DANGEROUS_PATTERNS :: "string list" where
  \<comment> \<open>\<open>sudo\s+rm\s+-[rf]+\<close>, \<open>sudo\s+dd\<close>, \<open>sudo\s+mkfs\<close>, \<open>sudo\s+chmod\s+-R\s+777\<close>,
      \<open>sudo\s+chown\s+-R\<close>\<close>
  "SUDO_DANGEROUS_PATTERNS =
   [ ''sudo'' @ bs ''s+rm'' @ bs ''s+-[rf]+'',
     ''sudo'' @ bs ''s+dd'',
     ''sudo'' @ bs ''s+mkfs'',
     ''sudo'' @ bs ''s+chmod'' @ bs ''s+-R'' @ bs ''s+777'',
     ''sudo'' @ bs ''s+chown'' @ bs ''s+-R'' ]"

definition CRITICAL_PATHS :: "string list" where
  "CRITICAL_PATHS =
   [ ''/'', ''/bin'', ''/boot'', ''/dev'', ''/etc'', ''/lib'', ''/proc'', ''/root'', ''/sbin'',
     ''/sys'', ''/usr'', ''/var'' ]"

definition warning_sign :: string where
  \<comment> \<open>the UTF-8 bytes of the warning sign U+26A0 U+FE0F that opens both warning texts\<close>
  "warning_sign = [CHR 0xE2, CHR 0x9A, CHR 0xA0, CHR 0xEF, CHR 0xB8, CHR 0x8F]"

definition check_command :: "re_found \<Rightarrow> string \<Rightarrow> safety_assessment" where
  \<comment> \<open>the parameter is \<open>re.search\<close> without flags; the five passes append to \<open>reasons\<close>
      in the order of the source\<close>
  "check_command re command =
     (let command_lower = py_lower (py_strip command);
          reasons =
            map (\<lambda>pattern. ''Contains destructive pattern: '' @ pattern)
              (filter (\<lambda>pattern. py_in pattern command_lower)
                 (concat (map snd DESTRUCTIVE_COMMANDS)));
          reasons = reasons @
            map (\<lambda>pattern. ''Dangerous sudo command detected'')
              (filter (\<lambda>pattern. re pattern command_lower) SUDO_DANGEROUS_PATTERNS);
          reasons = reasons @
            map (\<lambda>critical_path. ''Destructive operation on critical path: '' @ critical_path)
              (filter
                 (\<lambda>critical_path.
                    (py_in ('' '' @ critical_path) command \<or> py_startswith critical_path command)
                    \<and> list_ex (\<lambda>dangerous. py_in dangerous command_lower)
                          [''rm'', ''dd'', ''mkfs'', ''>''])
                 CRITICAL_PATHS);
          reasons = reasons @
            (if py_in ''--no-preserve-root'' command_lower
             then [''Bypasses root protection (--no-preserve-root)''] else []);
          reasons = reasons @
            (if py_in ''sudo'' command_lower \<and> (py_in ''-f'' command \<or> py_in ''--force'' command)
                \<and> list_ex (\<lambda>cmd. py_in cmd command_lower) [''rm'', ''mkfs'', ''dd'']
             then [''Forced system operation''] else [])
      in if reasons \<noteq> [] then
           (if list_ex (\<lambda>indicator. py_in indicator command_lower)
                 [''rm -rf /'', ''dd of=/dev/sda'', ''mkfs.'']
            then \<lparr>level = DANGEROUS,
                  warning = Some (warning_sign
                    @ ''  DANGEROUS: This command could cause data loss or system damage!''),
                  reasons = reasons\<rparr>
            else \<lparr>level = WARNING,
                  warning = Some (warning_sign
                    @ ''  WARNING: This command could be destructive. Use with caution.''),
                  reasons = reasons\<rparr>)
         else \<lparr>level = SAFE, warning = None, reasons = reasons\<rparr>)"

section \<open>Ranker (\<open>backend/ranker.py\<close>)\<close>

text \<open>
  The context is the dictionary built by the context extractor.  The ranker and the
  embedder read four of its keys, each through \<open>get\<close> with a default; a missing key is
  the default value of the field (\<open>False\<close>, the empty string, the empty dictionary).
  \<open>file_types\<close> keeps the insertion order of the dictionary.
\<close>

record shell_context =
  cwd_basename :: string
  is_git_repo :: bool
  file_types :: "(string \<times> nat) list"
  directory_type :: string

record candidate =
  command :: string
  score :: real
  rank_pos :: nat

record ranked = candidate +
  context_score :: real
  final_score :: real
  semantic_score :: real

definition w_semantic_similarity :: real where "w_semantic_similarity = 0.5"
definition w_git_match :: real where "w_git_match = 0.15"
definition w_directory_type_match :: real where "w_directory_type_match = 0.15"
definition w_file_type_match :: real where "w_file_type_match = 0.10"
definition w_recency :: real where "w_recency = 0.10"

definition git_patterns :: "string list" where
  \<comment> \<open>the first two are \<open>^git\s\<close> and \<open>\bgit\s\<close>\<close>
  "git_patterns =
   [ ''^git'' @ bs ''s'', bs ''bgit'' @ bs ''s'', ''git commit'', ''git push'', ''git pull'',
     ''git checkout'', ''git branch'', ''git status'', ''git add'', ''git diff'', ''git log'',
     ''git merge'', ''git rebase'' ]"

definition is_git_command :: "re_found \<Rightarrow> string \<Rightarrow> bool" where
  \<comment> \<open>the parameter is \<open>re.search\<close> with IGNORECASE\<close>
  "is_git_command re cmd = list_ex (\<lambda>pattern. re pattern cmd) git_patterns"

definition type_patterns :: "(string \<times> string list) list" where
  "type_patterns =
   [ (''python'',
        [ bs ''bpython'' @ bs ''b'', bs ''bpip'' @ bs ''b'', bs ''bpytest'' @ bs ''b'',
          bs ''.py'' @ bs ''b'', bs ''bvenv'' @ bs ''b'', bs ''bconda'' @ bs ''b'',
          bs ''bpoetry'' @ bs ''b'' ]),
     (''node'',
        [ bs ''bnpm'' @ bs ''b'', bs ''bnode'' @ bs ''b'', bs ''byarn'' @ bs ''b'',
          bs ''bpnpm'' @ bs ''b'', ''package'' @ bs ''.json'', bs ''.js'' @ bs ''b'',
          bs ''.ts'' @ bs ''b'' ]),
     (''rust'', [ bs ''bcargo'' @ bs ''b'', bs ''brushc'' @ bs ''b'', bs ''.rs'' @ bs ''b'' ]),
     (''go'', [ bs ''bgo'' @ bs ''s'', bs ''.go'' @ bs ''b'', ''go mod'', ''go build'', ''go test'' ]),
     (''java'',
        [ bs ''bmvn'' @ bs ''b'', bs ''bgradle'' @ bs ''b'', bs ''.java'' @ bs ''b'',
          bs ''.jar'' @ bs ''b'', bs ''bjavac'' @ bs ''b'' ]),
     (''docker'',
        [ bs ''bdocker'' @ bs ''b'', ''docker-compose'', ''dockerfile'',
          bs ''.dockerfile'' @ bs ''b'' ]) ]"

definition matches_directory_type :: "re_found \<Rightarrow> string \<Rightarrow> string \<Rightarrow> bool" where
  \<comment> \<open>\<open>type_patterns.get(dtype.strip(), [])\<close> for each piece of the comma-separated tag\<close>
  "matches_directory_type re cmd dir_type =
     list_ex
       (\<lambda>dtype.
          list_ex (\<lambda>pattern. re pattern cmd)
            (case map_of type_patterns (py_strip dtype) of None \<Rightarrow> [] | Some patterns \<Rightarrow> patterns))
       (py_split_on CHR '','' [] dir_type)"

definition matches_file_types :: "string \<Rightarrow> (string \<times> nat) list \<Rightarrow> bool" where
  "matches_file_types cmd ftypes =
     (let command_lower = py_lower cmd
      in list_ex
           (\<lambda>ext. ext \<noteq> ''no_extension''
                  \<and> (py_in (py_lstrip_chars ''.'' ext) command_lower \<or> py_in ext command_lower))
           (map fst ftypes))"

definition compute_context_score :: "re_found \<Rightarrow> candidate \<Rightarrow> shell_context \<Rightarrow> real" where
  "compute_context_score re cand ctx =
     (let score = 0;
          score =
            (if is_git_repo ctx \<and> is_git_command re (command cand)
             then score + w_git_match / (1 - w_semantic_similarity) else score);
          dir_type = directory_type ctx;
          score =
            (if dir_type \<noteq> [] \<and> dir_type \<noteq> ''general''
                \<and> matches_directory_type re (command cand) dir_type
             then score + w_directory_type_match / (1 - w_semantic_similarity) else score);
          score =
            (if file_types ctx \<noteq> [] \<and> matches_file_types (command cand) (file_types ctx)
             then score + w_file_type_match / (1 - w_semantic_similarity) else score)
      in min score 1.0)"

definition score_candidate :: "re_found \<Rightarrow> shell_context \<Rightarrow> candidate \<Rightarrow> ranked" where
  \<comment> \<open>the body of the scoring loop of \<open>rank\<close>: three keys are added to the candidate\<close>
  "score_candidate re ctx cand =
     (let cscore = compute_context_score re cand ctx;
          sscore = score cand;
          fscore = w_semantic_similarity * sscore + (1 - w_semantic_similarity) * cscore
      in \<lparr>command = command cand, score = score cand, rank_pos = rank_pos cand,
          context_score = cscore, final_score = fscore, semantic_score = sscore\<rparr>)"

definition rank :: "re_found \<Rightarrow> candidate list \<Rightarrow> shell_context \<Rightarrow> int \<Rightarrow> ranked list" where
  "rank re candidates ctx max_results =
     (if candidates = [] then []
      else py_slice_to
             (py_sorted_reverse final_score (map (score_candidate re ctx) candidates))
             max_results)"

section \<open>Vector index (\<open>backend/retriever.py\<close>)\<close>

subsection \<open>The embedding provider and the index library\<close>

text \<open>
  The embedding provider is a parameter: a function from a text to its vector.
  \<open>Embedder.embed\<close> runs it text by text (batches of one) and stacks the rows in order, and
  \<open>get_embedding_dim\<close> is the constant 384.  Vectors are lists of reals.
\<close>

type_synonym vec = "real list"
type_synonym embedder = "string \<Rightarrow> vec"

definition get_embedding_dim :: nat where
  "get_embedding_dim = 384"

definition embed :: "embedder \<Rightarrow> string list \<Rightarrow> vec list" where
  "embed embed_text texts = map embed_text texts"

definition context_to_string :: "shell_context \<Rightarrow> string" where
  \<comment> \<open>\<open>" ".join(parts)\<close> over the parts that are present\<close>
  "context_to_string ctx =
     (let parts = (if directory_type ctx \<noteq> [] then [''type:'' @ directory_type ctx] else [])
                @ (if is_git_repo ctx then [''git''] else [])
                @ (if cwd_basename ctx \<noteq> [] then [''dir:'' @ cwd_basename ctx] else [])
      in case parts of [] \<Rightarrow> [] | p # ps \<Rightarrow> p @ concat (map (\<lambda>q. '' '' @ q) ps))"

definition embed_command :: "embedder \<Rightarrow> string \<Rightarrow> shell_context option \<Rightarrow> vec" where
  \<comment> \<open>\<open>None\<close> also stands for an empty context dictionary (\<open>if context:\<close> is false)\<close>
  "embed_command embed_text cmd ctx =
     embed_text (case ctx of
                   None \<Rightarrow> cmd
                 | Some c \<Rightarrow> cmd @ '' [Context: '' @ context_to_string c @ '']'')"

text \<open>
  Modelled from the spec: the flat L2 index of the external index library (\<open>faiss\<close>), which
  is not part of the repository.  The specification describes its search as returning
  "the \<open>k\<close> nearest vectors by squared Euclidean distance": the library reports, for each
  neighbour, the squared distance (no square root is taken) and the position of the
  stored vector, nearest first.
  Adding rows and searching check the dimension, and searching checks \<open>k > 0\<close>, by
  assertion.  Among equal distances the model lists the lower position first.  The code
  calls the search with \<open>k\<close> clamped to the number of stored vectors.
\<close>

record flat_index =
  ix_d :: nat
  ix_vectors :: "vec list"

definition ntotal :: "flat_index \<Rightarrow> nat" where
  "ntotal ix = length (ix_vectors ix)"

definition IndexFlatL2 :: "nat \<Rightarrow> flat_index" where
  "IndexFlatL2 n = \<lparr>ix_d = n, ix_vectors = []\<rparr>"

definition index_add :: "flat_index \<Rightarrow> vec list \<Rightarrow> py_error + flat_index" where
  "index_add ix rows =
     (if list_all (\<lambda>v. length v = ix_d ix) rows
      then Inr (ix\<lparr>ix_vectors := ix_vectors ix @ rows\<rparr>)
      else Inl AssertionError)"

definition l2sqr :: "vec \<Rightarrow> vec \<Rightarrow> real" where
  \<comment> \<open>the squared Euclidean distance\<close>
  "l2sqr x y = sum_list (map (\<lambda>(a, b). (a - b)\<^sup>2) (zip x y))"

definition index_search :: "flat_index \<Rightarrow> vec \<Rightarrow> int \<Rightarrow> py_error + (real list \<times> nat list)" where
  "index_search ix q k =
     (if length q \<noteq> ix_d ix \<or> k \<le> 0 then Inl AssertionError
      else let scored = map (\<lambda>(i, v). (l2sqr q v, i)) (enumerate 0 (ix_vectors ix));
               nearest = take (nat k) (sort_key fst scored)
           in Inr (map fst nearest, map snd nearest))"

subsection \<open>The retriever and the files it persists\<close>

datatype meta_value = MInt int | MStr string

type_synonym metadata = "(string \<times> meta_value) list"

record retriever =
  index :: "flat_index option"
  commands :: "string list"
  metadata :: metadata
  dimension :: nat

definition new_retriever :: retriever where
  \<comment> \<open>\<open>Retriever.__init__\<close>\<close>
  "new_retriever = \<lparr>index = None, commands = [], metadata = [], dimension = get_embedding_dim\<rparr>"

text \<open>
  A file is missing, present but rejected by its reader (\<open>faiss.read_index\<close> or
  \<open>json.load\<close> raises), or holds a value.  The parsed sidecar is a JSON object whose keys
  \<open>commands\<close> and \<open>metadata\<close> may be absent.  Writing a file can fail.
\<close>

datatype 'a file_state = Missing | Unparsable | Holds 'a

record sidecar =
  js_commands :: "string list option"
  js_metadata :: "metadata option"

record disk =
  index_file :: "flat_index file_state"
  sidecar_file :: "sidecar file_state"
  index_writable :: bool
  sidecar_writable :: bool

definition save_index :: "retriever \<Rightarrow> disk \<Rightarrow> (py_error + unit) \<times> disk" where
  \<comment> \<open>the index blob is written first, then the sidecar; any failure is re-raised\<close>
  "save_index r dk =
     (case index r of
        None \<Rightarrow> (Inl TypeError, dk)
      | Some ix \<Rightarrow>
          if \<not> index_writable dk then (Inl OSError, dk)
          else let dk = dk\<lparr>index_file := Holds ix\<rparr>
               in if \<not> sidecar_writable dk then (Inl OSError, dk)
                  else (Inr (),
                        dk\<lparr>sidecar_file :=
                             Holds \<lparr>js_commands = Some (commands r),
                                    js_metadata = Some (metadata r)\<rparr>\<rparr>))"

definition build_index ::
  "embedder \<Rightarrow> string list \<Rightarrow> bool \<Rightarrow> retriever \<times> disk \<Rightarrow> (py_error + unit) \<times> retriever \<times> disk" where
  "build_index embed_text cmds save w =
     (let (r, dk) = w
      in if cmds = [] then (Inl ValueError, r, dk)
         else let embeddings = embed embed_text cmds;
                  r = r\<lparr>index := Some (IndexFlatL2 (dimension r))\<rparr>
              in (case index_add (IndexFlatL2 (dimension r)) embeddings of
                    Inl e \<Rightarrow> (Inl e, r, dk)
                  | Inr ix \<Rightarrow>
                      (let r = r\<lparr>index := Some ix\<rparr>;
                           r = r\<lparr>commands := cmds\<rparr>;
                           r = r\<lparr>metadata :=
                                   [ (''num_commands'', MInt (int (length cmds))),
                                     (''dimension'', MInt (int (dimension r))),
                                     (''index_type'', MStr ''IndexFlatL2'') ]\<rparr>
                       in if save then
                            (case save_index r dk of
                               (Inl e, dk') \<Rightarrow> (Inl e, r, dk')
                             | (Inr u, dk') \<Rightarrow> (Inr (), r, dk'))
                          else (Inr (), r, dk))))"

definition load_index :: "retriever \<times> disk \<Rightarrow> bool \<times> retriever" where
  \<comment> \<open>every exception is caught and turned into \<open>False\<close>; the assignments made before
      it stay\<close>
  "load_index w =
     (let (r, dk) = w
      in if index_file dk = Missing \<or> sidecar_file dk = Missing then (False, r)
         else (case index_file dk of
                 Missing \<Rightarrow> (False, r)
               | Unparsable \<Rightarrow> (False, r)
               | Holds ix \<Rightarrow>
                   (let r = r\<lparr>index := Some ix\<rparr>
                    in (case sidecar_file dk of
                          Missing \<Rightarrow> (False, r)
                        | Unparsable \<Rightarrow> (False, r)
                        | Holds data \<Rightarrow>
                            (case js_commands data of
                               None \<Rightarrow> (False, r)
                             | Some cs \<Rightarrow>
                                 (let r = r\<lparr>commands := cs\<rparr>
                                  in (case js_metadata data of
                                        None \<Rightarrow> (False, r)
                                      | Some m \<Rightarrow> (True, r\<lparr>metadata := m\<rparr>))))))))"

fun build_results :: "string list \<Rightarrow> (nat \<times> real) list \<Rightarrow> nat \<Rightarrow> candidate list" where
  \<comment> \<open>the loop over \<open>enumerate(zip(indices[0], similarities))\<close>; the last argument is the
      running value of \<open>rank\<close>\<close>
  "build_results cmds [] n = []"
| "build_results cmds ((idx, sc) # rest) n =
     (if idx < length cmds
      then \<lparr>command = cmds ! idx, score = sc, rank_pos = n\<rparr> # build_results cmds rest (Suc n)
      else build_results cmds rest (Suc n))"

definition search ::
  "embedder \<Rightarrow> retriever \<Rightarrow> string \<Rightarrow> int \<Rightarrow> shell_context option \<Rightarrow> py_error + candidate list" where
  "search embed_text r query k ctx =
     (case index r of
        None \<Rightarrow> Inl RuntimeError
      | Some ix \<Rightarrow>
          if ntotal ix = 0 then Inr []
          else (let query_embedding = embed_command embed_text query ctx;
                    k = min k (int (ntotal ix))
                in (case index_search ix query_embedding k of
                      Inl e \<Rightarrow> Inl e
                    | Inr (distances, indices) \<Rightarrow>
                        (let similarities = map (\<lambda>dist. 1 - (dist\<^sup>2 / 2)) distances
                         in Inr (build_results (commands r) (zip indices similarities) 0)))))"

definition add_commands ::
  "embedder \<Rightarrow> string list \<Rightarrow> bool \<Rightarrow> retriever \<times> disk \<Rightarrow> (py_error + unit) \<times> retriever \<times> disk" where
  "add_commands embed_text new_commands save w =
     (let (r, dk) = w
      in if new_commands = [] then (Inr (), r, dk)
         else let new_embeddings = embed embed_text new_commands
              in (case index r of
                    None \<Rightarrow> build_index embed_text new_commands save (r, dk)
                  | Some ix \<Rightarrow>
                      (case index_add ix new_embeddings of
                         Inl e \<Rightarrow> (Inl e, r, dk)
                       | Inr ix' \<Rightarrow>
                           (let r = r\<lparr>index := Some ix'\<rparr>;
                                r = r\<lparr>commands := commands r @ new_commands\<rparr>;
                                r = r\<lparr>metadata :=
                                        AList.update ''num_commands''
                                          (MInt (int (length (commands r)))) (metadata r)\<rparr>
                            in if save then
                                 (case save_index r dk of
                                    (Inl e, dk') \<Rightarrow> (Inl e, r, dk')
                                  | (Inr u, dk') \<Rightarrow> (Inr (), r, dk'))
                               else (Inr (), r, dk)))))"

definition stored_vectors :: "retriever \<Rightarrow> vec list" where
  \<comment> \<open>the vectors held, in position order: none while no index exists\<close>
  "stored_vectors r = (case index r of None \<Rightarrow> [] | Some ix \<Rightarrow> ix_vectors ix)"

definition vector_count :: "retriever \<Rightarrow> nat" where
  \<comment> \<open>\<open>index.ntotal\<close>, and 0 while no index exists\<close>
  "vector_count r = (case index r of None \<Rightarrow> 0 | Some ix \<Rightarrow> ntotal ix)"

definition stored_pair_consistent :: "disk \<Rightarrow> bool" where
  \<comment> \<open>when both files can be read, the sidecar lists as many commands as the index
      file holds vectors\<close>
  "stored_pair_consistent dk =
     (case index_file dk of
        Holds ix \<Rightarrow>
          (case sidecar_file dk of
             Holds data \<Rightarrow>
               (case js_commands data of Some cs \<Rightarrow> length cs = ntotal ix | None \<Rightarrow> True)
           | Missing \<Rightarrow> True
           | Unparsable \<Rightarrow> True)
      | Missing \<Rightarrow> True
      | Unparsable \<Rightarrow> True)"

section \<open>Suggestion engine (\<open>backend/suggestion_engine.py\<close>)\<close>

record suggestion = ranked +
  safety :: "safety_assessment option"

record response =
  success :: bool
  err :: "string option"
  suggestions :: "suggestion list"
  ctx_of :: shell_context
  message :: "string option"
  total_candidates :: "nat option"

record config =
  TOP_K_CANDIDATES :: int
  ENABLE_SAFETY_CHECK :: bool

definition annotate :: "re_found \<Rightarrow> bool \<Rightarrow> ranked \<Rightarrow> suggestion" where
  \<comment> \<open>the key \<open>safety\<close> is added only when the check is enabled\<close>
  "annotate re enabled s =
     \<lparr>command = command s, score = score s, rank_pos = rank_pos s,
      context_score = context_score s, final_score = final_score s,
      semantic_score = semantic_score s,
      safety = (if enabled then Some (check_command re (command s)) else None)\<rparr>"

fun filter_duplicates :: "string set \<Rightarrow> suggestion list \<Rightarrow> suggestion list" where
  \<comment> \<open>the loop over \<open>ranked\<close> with the set \<open>seen_commands\<close>\<close>
  "filter_duplicates seen [] = []"
| "filter_duplicates seen (s # rest) =
     (if command s \<notin> seen then s # filter_duplicates (insert (command s) seen) rest
      else filter_duplicates seen rest)"

definition get_suggestions ::
  "embedder \<Rightarrow> re_found \<Rightarrow> re_found \<Rightarrow> config \<Rightarrow> retriever
     \<Rightarrow> string \<Rightarrow> shell_context \<Rightarrow> int \<Rightarrow> py_error + response" where
  \<comment> \<open>\<open>ctx\<close> is the result of \<open>extract_context\<close>; the first \<open>re_found\<close> is \<open>re.search\<close> with
      IGNORECASE (ranker), the second without flags (safety checker).  Only RuntimeError
      is caught.\<close>
  "get_suggestions embed_text re_i re_s cfg r query ctx max_suggestions =
     (case search embed_text r query (TOP_K_CANDIDATES cfg) (Some ctx) of
        Inl e \<Rightarrow>
          if e = RuntimeError then
            Inr \<lparr>success = False,
                 err = Some ''Index not loaded. Call load_index() or build_index() first.'',
                 suggestions = [], ctx_of = ctx, message = None, total_candidates = None\<rparr>
          else Inl e
      | Inr candidates \<Rightarrow>
          if candidates = [] then
            Inr \<lparr>success = True, err = None, suggestions = [], ctx_of = ctx,
                 message = Some ''No similar commands found'', total_candidates = None\<rparr>
          else let ranked = rank re_i candidates ctx max_suggestions;
                   ranked = map (annotate re_s (ENABLE_SAFETY_CHECK cfg)) ranked;
                   unique_suggestions = filter_duplicates {} ranked
               in Inr \<lparr>success = True, err = None, suggestions = unique_suggestions,
                       ctx_of = ctx, message = None,
                       total_candidates = Some (length candidates)\<rparr>)"

definition ranked_suggestions ::
  "embedder \<Rightarrow> re_found \<Rightarrow> re_found \<Rightarrow> config \<Rightarrow> retriever
     \<Rightarrow> string \<Rightarrow> shell_context \<Rightarrow> int \<Rightarrow> suggestion list" where
  \<comment> \<open>the list \<open>ranked\<close> that reaches the duplicate filter of \<open>get_suggestions\<close>; it is
      empty when the engine returns before the filter\<close>
  "ranked_suggestions embed_text re_i re_s cfg r query ctx max_suggestions =
     (case search embed_text r query (TOP_K_CANDIDATES cfg) (Some ctx) of
        Inl e \<Rightarrow> []
      | Inr candidates \<Rightarrow>
          map (annotate re_s (ENABLE_SAFETY_CHECK cfg)) (rank re_i candidates ctx max_suggestions))"

text \<open>
  Deduplication as the specification words it: an entry stays when no earlier entry
  has its command text.
\<close>

definition keep_first_occurrences :: "suggestion list \<Rightarrow> suggestion list" where
  "keep_first_occurrences xs =
     map snd (filter (\<lambda>(i, s). command s \<notin> set (map command (take i xs))) (enumerate 0 xs))"

section \<open>Concrete inputs\<close>

text \<open>Inputs on which the theorems below are run.\<close>

definition no_fix_store :: "error_pattern list" where
  \<comment> \<open>a pattern store whose only entry has an empty list of fixes\<close>
  "no_fix_store =
     [\<lparr>p_pattern = ''permission denied'', p_category = ''permissions'', p_fixes = [],
       p_description = ''Permission error when executing command''\<rparr>]"

definition permission_entry :: error_pattern where
  \<comment> \<open>the first entry of the default store\<close>
  "permission_entry =
     \<lparr>p_pattern = ''permission denied'', p_category = ''permissions'',
      p_fixes = [''Try using sudo: sudo <command>'',
                 ''Check file permissions: ls -l <file>'',
                 ''Change permissions: chmod +x <file>''],
      p_description = ''Permission error when executing command''\<rparr>"

definition unclosed_set_store :: "error_pattern list" where
  \<comment> \<open>a store with a pattern that does not compile: \<open>re.error\<close>, unterminated set\<close>
  "unclosed_set_store =
     [\<lparr>p_pattern = ''['', p_category = ''custom'', p_fixes = [''Retry''],
       p_description = ''Malformed entry''\<rparr>,
      permission_entry]"

definition overflow_store :: "error_pattern list" where
  \<comment> \<open>a store with a pattern whose repetition count is too large\<close>
  "overflow_store =
     [permission_entry,
      \<lparr>p_pattern = ''a{99999999999}'', p_category = ''custom'', p_fixes = [''Retry''],
       p_description = ''Very long run of a''\<rparr>]"

definition ctx_git :: shell_context where
  "ctx_git =
     \<lparr>cwd_basename = ''proj'', is_git_repo = True, file_types = [(''.py'', 3)],
      directory_type = ''python''\<rparr>"

definition cands4 :: "candidate list" where
  "cands4 =
     [\<lparr>command = ''ls -la'', score = 0.9, rank_pos = 0\<rparr>,
      \<lparr>command = ''git status'', score = 0.8, rank_pos = 1\<rparr>,
      \<lparr>command = ''python -m pytest'', score = 0.8, rank_pos = 2\<rparr>,
      \<lparr>command = ''cat notes'', score = 0.9, rank_pos = 3\<rparr>]"

text \<open>
  An embedding provider of dimension 384 with three unit vectors: the first basis
  vector for texts that start with \<open>git\<close>, its opposite for texts that start with \<open>undo\<close>,
  the second basis vector for every other text.
\<close>

definition e1 :: vec where "e1 = 1 # replicate 383 0"
definition e2 :: vec where "e2 = 0 # 1 # replicate 382 0"
definition neg_e1 :: vec where "neg_e1 = - 1 # replicate 383 0"

definition demo_embedder :: embedder where
  "demo_embedder text =
     (if py_startswith ''git'' text then e1
      else if py_startswith ''undo'' text then neg_e1
      else e2)"

definition empty_disk :: disk where
  "empty_disk =
     \<lparr>index_file = Missing, sidecar_file = Missing, index_writable = True,
      sidecar_writable = True\<rparr>"

definition built3 :: retriever where
  \<comment> \<open>a fresh retriever after \<open>build_index(["git status", "ls", "undo last"], save=False)\<close>\<close>
  "built3 =
     fst (snd (build_index demo_embedder [''git status'', ''ls'', ''undo last''] False
                 (new_retriever, empty_disk)))"

definition built_dup :: retriever where
  \<comment> \<open>an index that holds one command twice\<close>
  "built_dup =
     fst (snd (build_index demo_embedder [''git status'', ''git status'', ''ls''] False
                 (new_retriever, empty_disk)))"

definition demo_meta :: metadata where
  "demo_meta =
     [(''num_commands'', MInt 1), (''dimension'', MInt 384), (''index_type'', MStr ''IndexFlatL2'')]"

definition mismatched_disk :: disk where
  \<comment> \<open>the index file holds two vectors, the sidecar lists one command\<close>
  "mismatched_disk =
     \<lparr>index_file = Holds \<lparr>ix_d = 384, ix_vectors = [e1, e2]\<rparr>,
      sidecar_file = Holds \<lparr>js_commands = Some [''git status''], js_metadata = Some demo_meta\<rparr>,
      index_writable = True, sidecar_writable = True\<rparr>"

definition half_disk :: disk where
  \<comment> \<open>a readable index file next to a sidecar that is not valid JSON\<close>
  "half_disk =
     \<lparr>index_file = Holds \<lparr>ix_d = 384, ix_vectors = [e1, e2]\<rparr>,
      sidecar_file = Unparsable, index_writable = True, sidecar_writable = True\<rparr>"

definition saved3 :: disk where
  \<comment> \<open>the files after \<open>build_index(["git status", "ls", "undo last"], save=True)\<close>\<close>
  "saved3 =
     \<lparr>index_file = Holds \<lparr>ix_d = 384, ix_vectors = [e1, e2, neg_e1]\<rparr>,
      sidecar_file = Holds \<lparr>js_commands = Some [''git status'', ''ls'', ''undo last''],
                            js_metadata = Some [(''num_commands'', MInt 3),
                                                (''dimension'', MInt 384),
                                                (''index_type'', MStr ''IndexFlatL2'')]\<rparr>,
      index_writable = True, sidecar_writable = True\<rparr>"

definition built4 :: retriever where
  \<comment> \<open>\<open>built3\<close> after \<open>add_commands(["git log"])\<close>\<close>
  "built4 =
     \<lparr>index = Some \<lparr>ix_d = 384, ix_vectors = [e1, e2, neg_e1, e1]\<rparr>,
      commands = [''git status'', ''ls'', ''undo last'', ''git log''],
      metadata = [(''num_commands'', MInt 4), (''dimension'', MInt 384),
                  (''index_type'', MStr ''IndexFlatL2'')],
      dimension = 384\<rparr>"

definition saved4 :: disk where
  \<comment> \<open>the files after that \<open>add_commands\<close> with \<open>save=True\<close>\<close>
  "saved4 =
     \<lparr>index_file = Holds \<lparr>ix_d = 384, ix_vectors = [e1, e2, neg_e1, e1]\<rparr>,
      sidecar_file = Holds \<lparr>js_commands = Some [''git status'', ''ls'', ''undo last'', ''git log''],
                            js_metadata = Some [(''num_commands'', MInt 4),
                                                (''dimension'', MInt 384),
                                                (''index_type'', MStr ''IndexFlatL2'')]\<rparr>,
      index_writable = True, sidecar_writable = True\<rparr>"

definition cands_dup :: "candidate list" where
  \<comment> \<open>what \<open>search\<close> returns on \<open>built_dup\<close> for the query \<open>git\<close>\<close>
  "cands_dup = [\<lparr>command = ''git status'', score = 1, rank_pos = 0\<rparr>,
            \<lparr>command = ''git status'', score = 1, rank_pos = 1\<rparr>,
            \<lparr>command = ''ls'', score = - 1, rank_pos = 2\<rparr>]"

definition loaded_empty :: retriever where
  \<comment> \<open>a fresh retriever after loading an index file with no vector\<close>
  "loaded_empty =
     snd (load_index
            (new_retriever,
             \<lparr>index_file = Holds (IndexFlatL2 384),
              sidecar_file = Holds \<lparr>js_commands = Some [], js_metadata = Some []\<rparr>,
              index_writable = True, sidecar_writable = True\<rparr>))"

definition demo_config :: config where
  "demo_config = \<lparr>TOP_K_CANDIDATES = 10, ENABLE_SAFETY_CHECK = True\<rparr>"

section \<open>Properties of the sort and the slice\<close>

lemma sorted_reverse_sorted:
  "sorted_wrt (\<lambda>a b. key b \<le> key a) (py_sorted_reverse key xs)"
proof -
  have "sorted (map (\<lambda>x. - key x) (py_sorted_reverse key xs))"
    by (simp add: py_sorted_reverse_def)
  then show ?thesis
    by (simp add: sorted_wrt_map)
qed

lemma sorted_reverse_stable:
  "filter (\<lambda>x. key x = c) (py_sorted_reverse key xs) = filter (\<lambda>x. key x = c) xs"
  using sort_key_stable [of "\<lambda>x. - key x" "- c" xs] by (simp add: py_sorted_reverse_def)

lemma sorted_reverse_mset: "mset (py_sorted_reverse key xs) = mset xs"
  by (simp add: py_sorted_reverse_def)

lemma sorted_reverse_set: "set (py_sorted_reverse key xs) = set xs"
  by (simp add: py_sorted_reverse_def)

lemma py_slice_to_take: "\<exists>m. py_slice_to xs n = take m xs"
  by auto

section \<open>Error fixer: confidence, order and the quick fix\<close>

lemma calculate_confidence_spec:
  "calculate_confidence pat msg lc = spec_confidence pat lc"
  by (cases lc) (auto simp: calculate_confidence_def spec_confidence_def tool_keywords_def Let_def)

lemma calculate_confidence_ge: "0.7 \<le> calculate_confidence pat msg lc"
  by (cases lc) (auto simp: calculate_confidence_def Let_def)

lemma collect_matches_filter:
  "collect_matches re pats msg lc = Inr ms
     \<Longrightarrow> ms = map (\<lambda>p. build_match p msg lc)
                (filter (\<lambda>p. re IGNORECASE (p_pattern p) msg = Found) pats)"
  by (induction pats arbitrary: ms) (auto split: re_outcome.splits sum.splits)

lemma collect_matches_returns:
  "list_all (\<lambda>p. \<forall>e. re IGNORECASE (p_pattern p) msg \<noteq> Raised e) pats
     \<Longrightarrow> \<exists>ms. collect_matches re pats msg lc = Inr ms"
  by (induction pats) (auto split: re_outcome.splits sum.splits)

lemma collect_matches_raises:
  "collect_matches re pats msg lc = Inl e
     \<Longrightarrow> list_ex (\<lambda>p. re IGNORECASE (p_pattern p) msg = Raised e) pats"
  by (induction pats) (auto split: re_outcome.splits sum.splits)

lemma find_fixes_Inr:
  "find_fixes re pats msg lc = Inr ms
     \<Longrightarrow> ms = py_sorted_reverse confidence
               (map (\<lambda>p. build_match p msg lc)
                  (filter (\<lambda>p. re IGNORECASE (p_pattern p) msg = Found) pats))"
  by (auto simp: find_fixes_def dest: collect_matches_filter split: sum.splits)

lemma find_fixes_confidence_ge:
  assumes "find_fixes re pats msg lc = Inr ms" and "m \<in> set ms"
  shows "0.7 \<le> confidence m"
proof -
  from assms obtain p where "m = build_match p msg lc"
    by (auto simp: sorted_reverse_set dest!: find_fixes_Inr)
  then show ?thesis
    using calculate_confidence_ge [of "p_pattern p" msg lc] by (simp add: build_match_def)
qed

lemma find_fixes_sorted_when_returned:
  assumes "find_fixes re pats msg lc = Inr ms"
  shows "mset ms = mset (map (\<lambda>p. build_match p msg lc)
                     (filter (\<lambda>p. re IGNORECASE (p_pattern p) msg = Found) pats))
     \<and> (\<forall>p. confidence (build_match p msg lc) = spec_confidence (p_pattern p) lc)
     \<and> sorted_wrt (\<lambda>a b. confidence b \<le> confidence a) ms
     \<and> (\<forall>c. filter (\<lambda>m. confidence m = c) ms
            = filter (\<lambda>m. confidence m = c)
                (map (\<lambda>p. build_match p msg lc)
                   (filter (\<lambda>p. re IGNORECASE (p_pattern p) msg = Found) pats)))"
  unfolding find_fixes_Inr [OF assms]
  by (simp add: sorted_reverse_mset sorted_reverse_sorted sorted_reverse_stable
        build_match_def calculate_confidence_spec)

lemma find_fixes_returns_or_raises:
  "(list_all (\<lambda>p. \<forall>e. re IGNORECASE (p_pattern p) msg \<noteq> Raised e) pats
      \<longrightarrow> (\<exists>ms. find_fixes re pats msg lc = Inr ms))
   \<and> (find_fixes re pats msg lc = Inl e
      \<longrightarrow> list_ex (\<lambda>p. re IGNORECASE (p_pattern p) msg = Raised e) pats)"
  using collect_matches_returns [of re msg pats lc] collect_matches_raises [of re pats msg lc e]
  by (auto simp: find_fixes_def split: sum.splits)

lemma overflow_pattern:
  "re_search_py flag ''a{99999999999}'' text = Raised OverflowError"
  by (simp add: re_search_py_def MAXREPEAT_def re_digit_def)

lemma unclosed_set_pattern: "re_search_py flag ''['' text = ReError"
  by (simp add: re_search_py_def re_search_def)

lemma permission_pattern:
  "re_search_py IGNORECASE ''permission denied'' ''bash: Permission denied'' = Found"
  "re_search_py NOFLAG ''permission denied'' ''bash: Permission denied'' = NotFound"
proof -
  have o: "\<not> re_count_overflow InText ''permission denied''"
    by simp
  have i: "re_search True ''permission denied'' ''bash: Permission denied'' = Some True"
    by code_simp
  have n: "re_search False ''permission denied'' ''bash: Permission denied'' = Some False"
    by code_simp
  show "re_search_py IGNORECASE ''permission denied'' ''bash: Permission denied'' = Found"
    by (simp add: re_search_py_def o i)
  show "re_search_py NOFLAG ''permission denied'' ''bash: Permission denied'' = NotFound"
    by (simp add: re_search_py_def o n)
qed

text \<open>
  C9.  The claim: for every error message and optional last command, \<open>find_fixes\<close> builds
  one match per pattern whose regex matches the message case-insensitively, with the
  confidence 0.7, plus 0.1 for a pattern longer than 30 characters, plus 0.15 when one of
  git, npm, docker, pip occurs in the last command and in the pattern, capped at 1, and
  returns the matches in descending order of confidence, ties in pattern order.  Whenever
  \<open>find_fixes\<close> returns, its result is that list (\<open>find_fixes_sorted_when_returned\<close>), and it
  returns unless \<open>re.search\<close> raises something else than \<open>re.error\<close> on a stored pattern
  (\<open>find_fixes_returns_or_raises\<close>).  The loop skips a stored pattern that does not
  compile, but it catches \<open>re.error\<close> only: a stored pattern with a repetition count that
  is too large makes \<open>re.search\<close> raise OverflowError, and \<open>find_fixes\<close> raises instead of
  returning the match of the first pattern.  Without the flag \<open>re.IGNORECASE\<close> the first
  pattern would not match the message.
\<close>

theorem find_fixes_uncaught_overflow:
  "find_fixes re_search_py [permission_entry] ''bash: Permission denied'' None
     = Inr [build_match permission_entry ''bash: Permission denied'' None]
   \<and> find_fixes re_search_py unclosed_set_store ''bash: Permission denied'' None
       = Inr [build_match permission_entry ''bash: Permission denied'' None]
   \<and> find_fixes re_search_py overflow_store ''bash: Permission denied'' None
       = Inl OverflowError
   \<and> re_search_py NOFLAG (p_pattern permission_entry) ''bash: Permission denied'' = NotFound"
  by (simp add: find_fixes_def unclosed_set_store_def overflow_store_def permission_entry_def
        overflow_pattern unclosed_set_pattern permission_pattern py_sorted_reverse_def)


text \<open>
  C10, as amended.  \<open>get_quick_fix\<close> returns \<open>None\<close> exactly when \<open>find_fixes\<close> returns no
  match; when there is a match it returns the first fix string of the first match,
  which has the highest confidence, provided that match has a fix string, and raises
  IndexError when its list of fixes is empty.  Every match has confidence at least 0.7,
  so the threshold 0.6 never turns a match into \<open>None\<close>.  An exception of \<open>find_fixes\<close>
  propagates.
\<close>

theorem get_quick_fix_top_match:
  "get_quick_fix re pats msg lc
     = (case find_fixes re pats msg lc of
          Inl e \<Rightarrow> Inl e
        | Inr [] \<Rightarrow> Inr None
        | Inr (m # ms) \<Rightarrow> (case m_fixes m of [] \<Rightarrow> Inl IndexError | f # fs \<Rightarrow> Inr (Some f)))
   \<and> (case find_fixes re pats msg lc of
          Inl e \<Rightarrow> True
        | Inr ms \<Rightarrow>
            list_all (\<lambda>m. 0.7 \<le> confidence m) ms
            \<and> (case ms of
                  [] \<Rightarrow> True
                | m # ms' \<Rightarrow> list_all (\<lambda>m'. confidence m' \<le> confidence m) ms'))"
proof (cases "find_fixes re pats msg lc")
  case (Inl e)
  then show ?thesis by (simp add: get_quick_fix_def)
next
  case (Inr ms)
  have ge: "list_all (\<lambda>m. 0.7 \<le> confidence m) ms"
    using find_fixes_confidence_ge [OF Inr] by (auto simp: list_all_iff)
  have top: "case ms of [] \<Rightarrow> True
               | m # ms' \<Rightarrow> list_all (\<lambda>m'. confidence m' \<le> confidence m) ms'"
  proof -
    have "sorted_wrt (\<lambda>a b. confidence b \<le> confidence a) ms"
      unfolding find_fixes_Inr [OF Inr] by (rule sorted_reverse_sorted)
    then show ?thesis by (auto simp: list_all_iff split: list.splits)
  qed
  have quick: "get_quick_fix re pats msg lc
     = (case ms of
          [] \<Rightarrow> Inr None
        | m # ms' \<Rightarrow> (case m_fixes m of [] \<Rightarrow> Inl IndexError | f # fs \<Rightarrow> Inr (Some f)))"
  proof (cases ms)
    case Nil
    with Inr show ?thesis by (simp add: get_quick_fix_def)
  next
    case (Cons m ms')
    with ge have "0.7 \<le> confidence m" by simp
    then have "confidence m > 0.6" by simp
    with Inr Cons show ?thesis by (simp add: get_quick_fix_def)
  qed
  from Inr quick ge top show ?thesis by simp
qed

lemma find_fixes_example:
  "map_sum id (map (\<lambda>m. (m_category m, confidence m)))
     (find_fixes re_search_py default_patterns
        ''npm ERR! EACCES: permission denied'' (Some ''npm install''))
   = Inr [(''npm'', 0.85), (''permissions'', 0.7)]"
  by code_simp

lemma find_fixes_example_fixes:
  "map_sum id (map m_fixes)
     (find_fixes re_search_py default_patterns
        ''npm ERR! EACCES: permission denied'' (Some ''npm install''))
   = Inr [[''Fix npm permissions: sudo chown -R $USER ~/.npm'',
           ''Use npx instead of global install'',
           ''Configure npm to use a different directory''],
          [''Try using sudo: sudo <command>'',
           ''Check file permissions: ls -l <file>'',
           ''Change permissions: chmod +x <file>'']]"
  by code_simp

theorem get_quick_fix_top_match_witness:
  "get_quick_fix re_search_py default_patterns
       ''npm ERR! EACCES: permission denied'' (Some ''npm install'')
     = Inr (Some ''Fix npm permissions: sudo chown -R $USER ~/.npm'')"
  using find_fixes_example_fixes
    get_quick_fix_top_match [of re_search_py default_patterns
       "''npm ERR! EACCES: permission denied''" "Some ''npm install''"]
  by (auto split: list.splits sum.splits)

text \<open>
  The claim as stated fails on a store whose matching pattern has no fix string: there
  is a match, and no fix string is returned.
\<close>

theorem get_quick_fix_counterexample:
  "find_fixes re_search_py no_fix_store ''bash: Permission denied'' None
     = Inr [\<lparr>m_category = ''permissions'',
             m_description = ''Permission error when executing command'',
             m_fixes = [], confidence = 0.7\<rparr>]
   \<and> get_quick_fix re_search_py no_fix_store ''bash: Permission denied'' None
       = Inl IndexError"
  by (simp add: get_quick_fix_def find_fixes_def no_fix_store_def permission_pattern
        py_sorted_reverse_def build_match_def calculate_confidence_def)

section \<open>Ranker: scores, order and truncation\<close>

lemma score_candidate_final:
  "final_score (score_candidate re ctx c)
     = 0.5 * semantic_score (score_candidate re ctx c)
       + 0.5 * context_score (score_candidate re ctx c)"
  by (simp add: score_candidate_def Let_def w_semantic_similarity_def)

lemma score_candidate_fields:
  "command (score_candidate re ctx c) = command c"
  "semantic_score (score_candidate re ctx c) = score c"
  "context_score (score_candidate re ctx c) = compute_context_score re c ctx"
  by (simp_all add: score_candidate_def Let_def)

lemma rank_take:
  "\<exists>m. rank re cands ctx n
        = take m (py_sorted_reverse final_score (map (score_candidate re ctx) cands))"
proof (cases "cands = []")
  case True
  then show ?thesis by (simp add: rank_def py_sorted_reverse_def)
next
  case False
  then show ?thesis
    unfolding rank_def using py_slice_to_take by (simp only: if_False)
qed

text \<open>
  C3, as amended.  For every candidate list and context: when \<open>max_results\<close> is not
  negative, \<open>rank\<close> returns at most \<open>max_results\<close> entries; for every \<open>max_results\<close>, each
  returned entry has \<open>final_score = 0.5 * semantic_score + 0.5 * context_score\<close>, the final
  scores are non-increasing, and the returned entries of any one final score are an
  initial part of the candidates of that score in retrieval order (the sort is stable).
\<close>

theorem rank_sorted_stable:
  "(0 \<le> max_results \<longrightarrow> int (length (rank re cands ctx max_results)) \<le> max_results)
   \<and> list_all (\<lambda>e. final_score e = 0.5 * semantic_score e + 0.5 * context_score e)
        (rank re cands ctx max_results)
   \<and> sorted_wrt (\<lambda>a b. final_score b \<le> final_score a) (rank re cands ctx max_results)
   \<and> (\<forall>v. prefix (filter (\<lambda>e. final_score e = v) (rank re cands ctx max_results))
               (filter (\<lambda>e. final_score e = v) (map (score_candidate re ctx) cands)))"
proof -
  let ?S = "map (score_candidate re ctx) cands"
  let ?R = "rank re cands ctx max_results"
  obtain m where R: "?R = take m (py_sorted_reverse final_score ?S)"
    using rank_take by blast
  have len: "0 \<le> max_results \<longrightarrow> int (length ?R) \<le> max_results"
    by (cases "cands = []") (auto simp: rank_def)
  have "set ?R \<subseteq> set ?S"
    unfolding R using set_take_subset [of m "py_sorted_reverse final_score ?S"]
    by (simp add: sorted_reverse_set)
  then have fin:
    "list_all (\<lambda>e. final_score e = 0.5 * semantic_score e + 0.5 * context_score e) ?R"
    using score_candidate_final [of re ctx] unfolding list_all_iff by auto
  have srt: "sorted_wrt (\<lambda>a b. final_score b \<le> final_score a) ?R"
    unfolding R by (rule sorted_wrt_take) (rule sorted_reverse_sorted)
  have stab: "prefix (filter (\<lambda>e. final_score e = v) ?R) (filter (\<lambda>e. final_score e = v) ?S)"
    for v
  proof -
    have "prefix (filter (\<lambda>e. final_score e = v) ?R)
            (filter (\<lambda>e. final_score e = v) (py_sorted_reverse final_score ?S))"
      unfolding R by (rule filter_mono_prefix) (rule take_is_prefix)
    then show ?thesis by (simp only: sorted_reverse_stable)
  qed
  from len fin srt stab show ?thesis by blast
qed

lemma rank_example:
  "map (\<lambda>e. (command e, final_score e)) (rank (re_found_in True) cands4 ctx_git 3)
     = [(''python -m pytest'', 0.65), (''git status'', 0.55), (''ls -la'', 0.45)]"
  by code_simp

theorem rank_sorted_stable_witness:
  "(0::int) \<le> 3
   \<and> int (length (rank (re_found_in True) cands4 ctx_git 3)) \<le> 3
   \<and> map (\<lambda>e. (command e, final_score e)) (rank (re_found_in True) cands4 ctx_git 3)
       = [(''python -m pytest'', 0.65), (''git status'', 0.55), (''ls -la'', 0.45)]"
  using rank_sorted_stable [of 3 "re_found_in True" cands4 ctx_git] rank_example by simp

text \<open>
  The claim as stated fails for a negative \<open>max_results\<close>: the slice \<open>ranked[:-1]\<close> drops
  the last entry only, so four candidates give three entries, more than \<open>-1\<close>.
\<close>

theorem rank_counterexample:
  "length (rank (re_found_in True) cands4 ctx_git (- 1)) = 3
   \<and> \<not> int (length (rank (re_found_in True) cands4 ctx_git (- 1))) \<le> - 1"
  by (simp add: rank_def cands4_def py_sorted_reverse_def)

section \<open>Safety checker: case and surrounding whitespace\<close>

text \<open>
  C8.  The safety check should give the same level, warning and reasons for a command
  and for any variant of it that differs in letter case and surrounding whitespace.  The
  code lower-cases and trims the command for three of its tests, and reads the command
  as given for the critical-path test and the force-flag test.  A leading TAB turns the
  level of \<open>/bin/rm x\<close> from WARNING into SAFE, and upper case removes the reason
  \<open>Forced system operation\<close> from \<open>sudo rm -f x\<close>; in both pairs the trimmed lower-case
  text is the same.
\<close>

theorem check_command_variants:
  "py_lower (py_strip (CHR 0x09 # ''/bin/rm x'')) = py_lower (py_strip ''/bin/rm x'')
   \<and> level (check_command (re_found_in False) ''/bin/rm x'') = WARNING
   \<and> level (check_command (re_found_in False) (CHR 0x09 # ''/bin/rm x'')) = SAFE
   \<and> py_lower (py_strip ''SUDO RM -F X'') = py_lower (py_strip ''sudo rm -f x'')
   \<and> reasons (check_command (re_found_in False) ''sudo rm -f x'')
       = [''Contains destructive pattern: rm -f'', ''Dangerous sudo command detected'',
          ''Forced system operation'']
   \<and> reasons (check_command (re_found_in False) ''SUDO RM -F X'')
       = [''Contains destructive pattern: rm -f'', ''Dangerous sudo command detected'']"
  by code_simp

section \<open>Vector index: similarity, parallel lists and errors\<close>

lemma demo_lengths: "length e1 = 384" "length e2 = 384" "length neg_e1 = 384"
  by (simp_all add: e1_def e2_def neg_e1_def)

lemma l2sqr_zeros: "l2sqr (replicate n 0) (replicate n 0) = 0"
  by (induction n) (simp_all add: l2sqr_def)

lemma l2sqr_Cons: "l2sqr (a # x) (b # y) = (a - b)\<^sup>2 + l2sqr x y"
  by (simp add: l2sqr_def)

lemma demo_distances:
  "l2sqr e1 e1 = 0" "l2sqr e1 e2 = 2" "l2sqr e1 neg_e1 = 4"
proof -
  have r: "replicate 383 (0::real) = 0 # replicate 382 0"
    by (simp add: numeral_eq_Suc)
  show "l2sqr e1 e1 = 0" by (simp add: e1_def l2sqr_Cons l2sqr_zeros)
  show "l2sqr e1 neg_e1 = 4" by (simp add: e1_def neg_e1_def l2sqr_Cons l2sqr_zeros)
  show "l2sqr e1 e2 = 2" by (simp add: e1_def e2_def r l2sqr_Cons l2sqr_zeros)
qed

lemma demo_norms:
  "l2sqr e1 (replicate 384 0) = 1" "l2sqr e2 (replicate 384 0) = 1"
  "l2sqr neg_e1 (replicate 384 0) = 1"
proof -
  have r: "replicate 384 (0::real) = 0 # 0 # replicate 382 0"
    "replicate 383 (0::real) = 0 # replicate 382 0"
    by (simp_all add: numeral_eq_Suc)
  show "l2sqr e1 (replicate 384 0) = 1" by (simp add: e1_def r l2sqr_Cons l2sqr_zeros)
  show "l2sqr e2 (replicate 384 0) = 1" by (simp add: e2_def r l2sqr_Cons l2sqr_zeros)
  show "l2sqr neg_e1 (replicate 384 0) = 1" by (simp add: neg_e1_def r l2sqr_Cons l2sqr_zeros)
qed

lemma demo_embeddings:
  "demo_embedder ''git'' = e1" "demo_embedder ''git status'' = e1"
  "demo_embedder ''ls'' = e2" "demo_embedder ''undo last'' = neg_e1"
  "demo_embedder (''git'' @ rest) = e1"
  by (simp_all add: demo_embedder_def py_startswith_def)

lemma built3_eq:
  "built3 = \<lparr>index = Some \<lparr>ix_d = 384, ix_vectors = [e1, e2, neg_e1]\<rparr>,
             commands = [''git status'', ''ls'', ''undo last''],
             metadata = [(''num_commands'', MInt 3), (''dimension'', MInt 384),
                         (''index_type'', MStr ''IndexFlatL2'')],
             dimension = 384\<rparr>"
  by (simp add: built3_def build_index_def new_retriever_def get_embedding_dim_def embed_def
        IndexFlatL2_def index_add_def demo_embeddings demo_lengths Let_def)

lemma built_dup_eq:
  "built_dup = \<lparr>index = Some \<lparr>ix_d = 384, ix_vectors = [e1, e1, e2]\<rparr>,
             commands = [''git status'', ''git status'', ''ls''],
             metadata = [(''num_commands'', MInt 3), (''dimension'', MInt 384),
                         (''index_type'', MStr ''IndexFlatL2'')],
             dimension = 384\<rparr>"
  by (simp add: built_dup_def build_index_def new_retriever_def get_embedding_dim_def embed_def
        IndexFlatL2_def index_add_def demo_embeddings demo_lengths Let_def)

lemma build_results_mem:
  "c \<in> set (build_results cmds pairs n)
     \<Longrightarrow> \<exists>idx sc. (idx, sc) \<in> set pairs \<and> idx < length cmds
           \<and> command c = cmds ! idx \<and> score c = sc"
  by (induction cmds pairs n rule: build_results.induct) (auto split: if_splits)

lemma zip_snd_fst: "zip (map snd xs) (map (g \<circ> fst) xs) = map (\<lambda>p. (snd p, g (fst p))) xs"
  by (induction xs) auto

lemma search_score_formula:
  assumes "search E r q k ctx = Inr res" and "c \<in> set res"
  shows "\<exists>i. i < length (stored_vectors r) \<and> i < length (commands r)
           \<and> command c = commands r ! i
           \<and> score c = 1 - (l2sqr (embed_command E q ctx) (stored_vectors r ! i))\<^sup>2 / 2"
proof -
  from assms obtain ix where ix: "index r = Some ix"
    by (auto simp: search_def split: option.splits)
  let ?q = "embed_command E q ctx"
  let ?scored = "map (\<lambda>(i, v). (l2sqr ?q v, i)) (enumerate 0 (ix_vectors ix))"
  define m where "m = nat (min k (int (ntotal ix)))"
  from assms ix have
    res: "res = build_results (commands r)
                  (map (\<lambda>p. (snd p, 1 - (fst p)\<^sup>2 / 2)) (take m (sort_key fst ?scored))) 0"
    by (auto simp: search_def index_search_def Let_def zip_snd_fst m_def split: if_splits)
  from build_results_mem [OF assms(2) [unfolded res]]
  obtain idx sc where m: "(idx, sc) \<in> set (map (\<lambda>p. (snd p, 1 - (fst p)\<^sup>2 / 2))
                               (take m (sort_key fst ?scored)))"
    and i: "idx < length (commands r)" "command c = commands r ! idx" "score c = sc"
    by blast
  from m obtain p where p: "p \<in> set (take m (sort_key fst ?scored))"
    "idx = snd p" "sc = 1 - (fst p)\<^sup>2 / 2" by auto
  from p(1) have "p \<in> set ?scored"
    using set_take_subset [of m "sort_key fst ?scored"] by auto
  then have "snd p < length (ix_vectors ix) \<and> fst p = l2sqr ?q (ix_vectors ix ! snd p)"
    by (auto simp: in_set_enumerate_eq)
  with p i ix show ?thesis by (auto simp: stored_vectors_def)
qed

text \<open>
  C1.  The claim: each returned similarity is \<open>1 - d\<^sup>2 / 2\<close> for the Euclidean distance
  \<open>d\<close> between the query vector and the stored vector, lies in \<open>[-1, 1]\<close> for unit vectors,
  and is 1 for identical vectors.  The index library already returns the squared
  distance, and \<open>search\<close> squares it again: the score is \<open>1 - (d\<^sup>2)\<^sup>2 / 2\<close>
  (\<open>search_score_formula\<close> above, for every input).  On three stored unit vectors at
  squared distances 0, 2 and 4 from the query vector the code returns 1, -1 and -7,
  where the claim gives 1, 0 and -1.
\<close>

theorem search_squares_distance_twice:
  "search demo_embedder built3 ''git'' 10 None
     = Inr [\<lparr>command = ''git status'', score = 1, rank_pos = 0\<rparr>,
            \<lparr>command = ''ls'', score = - 1, rank_pos = 1\<rparr>,
            \<lparr>command = ''undo last'', score = - 7, rank_pos = 2\<rparr>]
   \<and> map (\<lambda>v. 1 - l2sqr (demo_embedder ''git'') v / 2) (stored_vectors built3) = [1, 0, - 1]
   \<and> map (\<lambda>v. l2sqr v (replicate 384 0)) (demo_embedder ''git'' # stored_vectors built3)
       = [1, 1, 1, 1]"
  by (simp add: built3_eq search_def ntotal_def embed_command_def demo_embeddings
        index_search_def demo_lengths demo_distances demo_norms stored_vectors_def Let_def)

lemma load_index_no_files:
  "index_file dk = Missing \<or> index_file dk = Unparsable \<or> sidecar_file dk = Missing
     \<Longrightarrow> load_index (r, dk) = (False, r)"
  by (auto simp: load_index_def)

text \<open>
  C7.  The claim: \<open>load_index\<close> returns a truth value, never raises, and after every
  failure the retriever is as if nothing had been loaded.  The result is a truth value
  by construction, and with a file missing or an unreadable index file the retriever is
  unchanged (\<open>load_index_no_files\<close>).  With a readable index file and a sidecar that does
  not parse, \<open>load_index\<close> returns \<open>False\<close> after it has assigned the index: a fresh
  retriever then holds an index without commands, and \<open>search\<close> answers with an empty
  list where the fresh retriever raises RuntimeError.
\<close>

theorem load_index_half_loaded:
  "load_index (new_retriever, half_disk)
     = (False, new_retriever\<lparr>index := Some \<lparr>ix_d = 384, ix_vectors = [e1, e2]\<rparr>\<rparr>)
   \<and> search demo_embedder (snd (load_index (new_retriever, half_disk))) ''git'' 10 None = Inr []
   \<and> search demo_embedder new_retriever ''git'' 10 None = Inl RuntimeError"
  by (simp add: load_index_def half_disk_def new_retriever_def search_def ntotal_def
        embed_command_def demo_embeddings index_search_def demo_lengths demo_distances Let_def)

lemma index_add_Inr:
  "index_add ix rows = Inr ix' \<Longrightarrow> ix' = ix\<lparr>ix_vectors := ix_vectors ix @ rows\<rparr>"
  by (auto simp: index_add_def split: if_splits)

lemma build_index_success:
  assumes "build_index E cmds save (r, dk) = (Inr u, r', dk')"
  shows "commands r' = cmds"
    and "index r' = Some \<lparr>ix_d = dimension r, ix_vectors = embed E cmds\<rparr>"
  using assms
  by (auto simp: build_index_def Let_def IndexFlatL2_def dest!: index_add_Inr
        split: if_splits sum.splits prod.splits)

lemma add_commands_success:
  assumes "add_commands E new save (r, dk) = (Inr u, r', dk')"
    and "index r = Some ix"
  shows "commands r' = commands r @ new"
    and "index r' = Some (ix\<lparr>ix_vectors := ix_vectors ix @ embed E new\<rparr>)"
  using assms
  by (auto simp: add_commands_def Let_def embed_def dest!: index_add_Inr
        split: if_splits sum.splits prod.splits)

lemma add_commands_first:
  assumes "index r = None" and "new \<noteq> []"
  shows "add_commands E new save (r, dk) = build_index E new save (r, dk)"
  using assms by (simp add: add_commands_def)

lemma load_index_success:
  assumes "load_index (r, dk) = (True, r')"
  shows "\<exists>ix data cs. index_file dk = Holds ix \<and> sidecar_file dk = Holds data
          \<and> js_commands data = Some cs \<and> index r' = Some ix \<and> commands r' = cs"
  using assms
  by (auto simp: load_index_def Let_def split: if_splits file_state.splits option.splits)

lemma vector_count_stored: "vector_count r = length (stored_vectors r)"
  by (simp add: vector_count_def stored_vectors_def ntotal_def split: option.splits)

text \<open>
  C2, as amended.  After a successful \<open>build_index\<close> the command list is as long as the
  index has vectors, and vector \<open>i\<close> is the embedding of command \<open>i\<close>; a successful
  \<open>add_commands\<close> on a retriever whose lists are equally long keeps them equally long
  and appends the new commands and their embeddings in order; a successful \<open>load_index\<close>
  leaves equally long lists when the index file and the sidecar on disk agree on the
  count.  \<open>search\<close> assigns nothing: the model of \<open>search\<close> returns no retriever.
\<close>

theorem index_operations_keep_parallel:
  "(build_index E cmds save (r, dk) = (Inr u, r', dk')
      \<longrightarrow> length (commands r') = vector_count r'
          \<and> commands r' = cmds \<and> stored_vectors r' = embed E cmds)
   \<and> (length (commands r) = vector_count r
        \<and> add_commands E cmds save (r, dk) = (Inr u, r', dk')
      \<longrightarrow> length (commands r') = vector_count r'
          \<and> commands r' = commands r @ cmds
          \<and> stored_vectors r' = stored_vectors r @ embed E cmds)
   \<and> (stored_pair_consistent dk \<and> load_index (r, dk) = (True, r')
      \<longrightarrow> length (commands r') = vector_count r')"
proof -
  have B: "length (commands r') = vector_count r' \<and> commands r' = cmds
          \<and> stored_vectors r' = embed E cmds"
    if b: "build_index E cmds save (r, dk) = (Inr u, r', dk')"
    using build_index_success [OF b]
    by (simp add: vector_count_stored stored_vectors_def embed_def)
  have A: "length (commands r') = vector_count r'
          \<and> commands r' = commands r @ cmds
          \<and> stored_vectors r' = stored_vectors r @ embed E cmds"
    if inv: "length (commands r) = vector_count r"
      and a: "add_commands E cmds save (r, dk) = (Inr u, r', dk')"
  proof (cases "index r")
    case None
    with inv have c0: "commands r = []" by (simp add: vector_count_def)
    show ?thesis
    proof (cases "cmds = []")
      case True
      with a have "r' = r" by (simp add: add_commands_def)
      with inv True show ?thesis by (simp add: embed_def)
    next
      case False
      with a None have "build_index E cmds save (r, dk) = (Inr u, r', dk')"
        by (simp add: add_commands_first)
      from build_index_success [OF this] None c0 show ?thesis
        by (simp add: vector_count_stored stored_vectors_def embed_def)
    qed
  next
    case (Some ix)
    from add_commands_success [OF a Some] inv Some show ?thesis
      by (simp add: vector_count_stored stored_vectors_def embed_def)
  qed
  have L: "length (commands r') = vector_count r'"
    if c: "stored_pair_consistent dk" and l: "load_index (r, dk) = (True, r')"
  proof -
    obtain ix data cs where "index_file dk = Holds ix" "sidecar_file dk = Holds data"
      "js_commands data = Some cs" "index r' = Some ix" "commands r' = cs"
      using load_index_success [OF l] by blast
    with c show ?thesis
      by (simp add: stored_pair_consistent_def vector_count_def)
  qed
  from B A L show ?thesis by blast
qed

lemma build3_run:
  "build_index demo_embedder [''git status'', ''ls'', ''undo last''] False
     (new_retriever, empty_disk) = (Inr (), built3, empty_disk)"
  by (simp add: built3_eq build_index_def new_retriever_def get_embedding_dim_def embed_def
        IndexFlatL2_def index_add_def demo_embeddings demo_lengths Let_def)

lemma add4_run:
  "add_commands demo_embedder [''git log''] True (built3, empty_disk) = (Inr (), built4, saved4)"
  by (simp add: built3_eq built4_def saved4_def add_commands_def save_index_def embed_def
        index_add_def demo_embedder_def py_startswith_def demo_lengths empty_disk_def Let_def)

lemma load3_run:
  "stored_pair_consistent saved3 \<and> load_index (new_retriever, saved3) = (True, built3)"
  by (simp add: stored_pair_consistent_def saved3_def load_index_def new_retriever_def
        built3_eq ntotal_def get_embedding_dim_def)

theorem index_operations_keep_parallel_witness:
  "build_index demo_embedder [''git status'', ''ls'', ''undo last''] False
       (new_retriever, empty_disk) = (Inr (), built3, empty_disk)
   \<and> length (commands built3) = vector_count built3
   \<and> stored_vectors built3 = embed demo_embedder [''git status'', ''ls'', ''undo last'']
   \<and> add_commands demo_embedder [''git log''] True (built3, empty_disk)
       = (Inr (), built4, saved4)
   \<and> length (commands built4) = vector_count built4
   \<and> commands built4 = commands built3 @ [''git log'']
   \<and> stored_vectors built4 = stored_vectors built3 @ embed demo_embedder [''git log'']
   \<and> stored_pair_consistent saved3
   \<and> load_index (new_retriever, saved3) = (True, built3)"
proof -
  have b: "length (commands built3) = vector_count built3
      \<and> stored_vectors built3 = embed demo_embedder [''git status'', ''ls'', ''undo last'']"
    using index_operations_keep_parallel
            [of demo_embedder "[''git status'', ''ls'', ''undo last'']" False new_retriever
                empty_disk "()" built3 empty_disk]
          build3_run
    by blast
  have a: "length (commands built4) = vector_count built4
      \<and> commands built4 = commands built3 @ [''git log'']
      \<and> stored_vectors built4 = stored_vectors built3 @ embed demo_embedder [''git log'']"
    using index_operations_keep_parallel
            [of demo_embedder "[''git log'']" True built3 empty_disk "()" built4 saved4]
          add4_run b
    by blast
  have l: "length (commands built3) = vector_count built3"
    using index_operations_keep_parallel
            [of demo_embedder "[]" True new_retriever saved3 "()" built3 saved3]
          load3_run
    by blast
  from b a l build3_run add4_run load3_run show ?thesis by blast
qed

text \<open>
  The claim C2 as stated fails for \<open>load_index\<close>: it succeeds on an index file with two
  vectors and a sidecar with one command, and leaves one command for two vectors.  Such
  a pair is what \<open>save_index\<close> leaves behind when the index blob is written and the
  write of the sidecar fails (\<open>mismatched_disk_reachable\<close>).
\<close>

theorem load_index_counterexample:
  "fst (load_index (new_retriever, mismatched_disk)) = True
   \<and> length (commands (snd (load_index (new_retriever, mismatched_disk)))) = 1
   \<and> vector_count (snd (load_index (new_retriever, mismatched_disk))) = 2"
  by (simp add: load_index_def mismatched_disk_def new_retriever_def vector_count_def ntotal_def)

lemma mismatched_disk_reachable:
  "(let (out1, r1, d1) = build_index demo_embedder [''git status''] True (new_retriever, empty_disk);
        (out2, r2, d2) = add_commands demo_embedder [''ls''] True (r1, d1\<lparr>sidecar_writable := False\<rparr>)
    in (out1, out2, d2\<lparr>sidecar_writable := True\<rparr>))
   = (Inr (), Inl OSError, mismatched_disk)"
  by (simp add: build_index_def add_commands_def save_index_def new_retriever_def
        get_embedding_dim_def embed_def IndexFlatL2_def index_add_def demo_embeddings
        demo_lengths empty_disk_def mismatched_disk_def demo_meta_def Let_def)


text \<open>
  The condition on \<open>add_commands\<close> is needed as well: after a failed load from a
  readable index file and a sidecar that does not parse, a fresh retriever holds two
  vectors and no command, and a successful \<open>add_commands\<close> of one command leaves one
  command for three vectors.
\<close>

lemma add_commands_after_half_load:
  "(let (ok, r1) = load_index (new_retriever, half_disk);
        (out, r2, d2) = add_commands demo_embedder [''git log''] False (r1, half_disk)
    in (ok, out, length (commands r2), vector_count r2))
   = (False, Inr (), 1, 3)"
  by (simp add: load_index_def half_disk_def new_retriever_def add_commands_def embed_def
        index_add_def demo_embedder_def py_startswith_def demo_lengths vector_count_def
        ntotal_def Let_def)

text \<open>
  C5.  \<open>search\<close> raises RuntimeError whenever the retriever has no index; when an index
  exists and holds no vector, \<open>search\<close> returns the empty list.
\<close>

theorem search_needs_index:
  "(index r = None \<longrightarrow> search E r q k ctx = Inl RuntimeError)
   \<and> (\<forall>ix. index r = Some ix \<and> ntotal ix = 0 \<longrightarrow> search E r q k ctx = Inr [])"
  by (simp add: search_def)

lemma loaded_empty_eq:
  "loaded_empty = \<lparr>index = Some \<lparr>ix_d = 384, ix_vectors = []\<rparr>, commands = [], metadata = [],
                    dimension = 384\<rparr>"
  by (simp add: loaded_empty_def load_index_def new_retriever_def IndexFlatL2_def
        get_embedding_dim_def)

theorem search_needs_index_witness:
  "index new_retriever = None
   \<and> search demo_embedder new_retriever ''git'' 10 None = Inl RuntimeError
   \<and> index loaded_empty = Some (IndexFlatL2 384) \<and> ntotal (IndexFlatL2 384) = 0
   \<and> search demo_embedder loaded_empty ''git'' 10 None = Inr []"
proof -
  have a: "index new_retriever = None" by (simp add: new_retriever_def)
  have b: "index loaded_empty = Some (IndexFlatL2 384) \<and> ntotal (IndexFlatL2 384) = 0"
    by (simp add: loaded_empty_eq IndexFlatL2_def ntotal_def)
  from a b search_needs_index [of new_retriever demo_embedder "''git''" 10 None]
    search_needs_index [of loaded_empty demo_embedder "''git''" 10 None]
  show ?thesis by blast
qed

text \<open>
  C6.  \<open>build_index\<close> on an empty command list raises ValueError (the input error of
  the specification) and leaves the retriever (index, command list, metadata) and the
  files unchanged.
\<close>

theorem build_index_rejects_empty:
  "build_index E [] save (r, dk) = (Inl ValueError, r, dk)"
  by (simp add: build_index_def)

section \<open>Suggestion engine: duplicates\<close>

lemma filter_duplicates_commands:
  "command ` set (filter_duplicates seen xs) = command ` set xs - seen"
  by (induction xs arbitrary: seen) auto

lemma filter_duplicates_distinct: "distinct (map command (filter_duplicates seen xs))"
  by (induction xs arbitrary: seen) (auto simp: filter_duplicates_commands)

lemma filter_duplicates_subseq: "subseq (filter_duplicates seen xs) xs"
  by (induction xs arbitrary: seen) auto

lemma filter_duplicates_enumerate:
  "filter_duplicates seen xs
     = map snd (filter (\<lambda>(i, s). command s \<notin> seen \<union> set (map command (take (i - n) xs)))
                  (enumerate n xs))"
proof (induction xs arbitrary: seen n)
  case Nil
  then show ?case by simp
next
  case (Cons x xs)
  have tl: "filter (\<lambda>(i, s). command s \<notin> seen \<union> set (map command (take (i - n) (x # xs))))
              (enumerate (Suc n) xs)
          = filter (\<lambda>(i, s). command s \<notin> insert (command x) seen
                                  \<union> set (map command (take (i - Suc n) xs)))
              (enumerate (Suc n) xs)"
  proof (rule filter_cong [OF refl])
    fix p assume "p \<in> set (enumerate (Suc n) xs)"
    then have "Suc n \<le> fst p" by (auto simp: in_set_enumerate_eq)
    then have "fst p - n = Suc (fst p - Suc n)" by simp
    then show "(case p of (i, s) \<Rightarrow> command s \<notin> seen \<union> set (map command (take (i - n) (x # xs))))
             = (case p of (i, s) \<Rightarrow> command s \<notin> insert (command x) seen
                                  \<union> set (map command (take (i - Suc n) xs)))"
      by (cases p) auto
  qed
  show ?case
  proof (cases "command x \<in> seen")
    case True
    then have "insert (command x) seen = seen" by auto
    with True Cons.IH [of seen "Suc n"] tl show ?thesis by simp
  next
    case False
    with Cons.IH [of "insert (command x) seen" "Suc n"] tl show ?thesis by simp
  qed
qed

lemma filter_duplicates_spec: "filter_duplicates {} xs = keep_first_occurrences xs"
  using filter_duplicates_enumerate [of "{}" xs 0] by (simp add: keep_first_occurrences_def)

lemma get_suggestions_suggestions:
  "get_suggestions E re_i re_s cfg r q ctx n = Inr resp
     \<Longrightarrow> suggestions resp = filter_duplicates {} (ranked_suggestions E re_i re_s cfg r q ctx n)"
  by (auto simp: get_suggestions_def ranked_suggestions_def rank_def Let_def
        split: sum.splits if_splits)

text \<open>
  C4.  Whatever the query, the context and the index, a response of the suggestion
  engine holds no two suggestions with the same command text; its suggestions are the
  ranked (and annotated) entries that have no earlier entry with the same command text,
  in the order of the ranked list.
\<close>

theorem get_suggestions_no_duplicates:
  assumes "get_suggestions E re_i re_s cfg r q ctx n = Inr resp"
  shows "distinct (map command (suggestions resp))
     \<and> suggestions resp = keep_first_occurrences (ranked_suggestions E re_i re_s cfg r q ctx n)
     \<and> subseq (suggestions resp) (ranked_suggestions E re_i re_s cfg r q ctx n)"
proof -
  let ?xs = "ranked_suggestions E re_i re_s cfg r q ctx n"
  have s: "suggestions resp = filter_duplicates {} ?xs"
    using get_suggestions_suggestions [OF assms] .
  have "distinct (map command (filter_duplicates {} ?xs))"
    by (rule filter_duplicates_distinct)
  moreover have "filter_duplicates {} ?xs = keep_first_occurrences ?xs"
    by (rule filter_duplicates_spec)
  moreover have "subseq (filter_duplicates {} ?xs) ?xs"
    by (rule filter_duplicates_subseq)
  ultimately show ?thesis unfolding s by simp
qed

lemma search_built_dup:
  "search demo_embedder built_dup ''git'' 10 (Some ctx_git) = Inr cands_dup"
  by (simp add: built_dup_eq search_def ntotal_def embed_command_def demo_embedder_def
        py_startswith_def index_search_def demo_lengths demo_distances Let_def cands_dup_def)

lemma dup_pipeline:
  "map command (map (annotate (re_found_in False) True) (rank (re_found_in True) cands_dup ctx_git 5))
     = [''git status'', ''git status'', ''ls'']"
  "map command (filter_duplicates {}
       (map (annotate (re_found_in False) True) (rank (re_found_in True) cands_dup ctx_git 5)))
     = [''git status'', ''ls'']"
  by code_simp+

theorem get_suggestions_no_duplicates_witness:
  "search demo_embedder built_dup ''git'' (TOP_K_CANDIDATES demo_config) (Some ctx_git)
     = Inr cands_dup
   \<and> map command (ranked_suggestions demo_embedder (re_found_in True) (re_found_in False)
                    demo_config built_dup ''git'' ctx_git 5)
       = [''git status'', ''git status'', ''ls'']
   \<and> (\<exists>resp. get_suggestions demo_embedder (re_found_in True) (re_found_in False) demo_config
                 built_dup ''git'' ctx_git 5 = Inr resp
              \<and> map command (suggestions resp) = [''git status'', ''ls'']
              \<and> distinct (map command (suggestions resp)))"
proof -
  have s: "search demo_embedder built_dup ''git'' (TOP_K_CANDIDATES demo_config) (Some ctx_git)
     = Inr cands_dup"
    using search_built_dup by (simp add: demo_config_def)
  have ne: "cands_dup \<noteq> []" by (simp add: cands_dup_def)
  have rs: "ranked_suggestions demo_embedder (re_found_in True) (re_found_in False)
                    demo_config built_dup ''git'' ctx_git 5
       = map (annotate (re_found_in False) True) (rank (re_found_in True) cands_dup ctx_git 5)"
    by (simp add: ranked_suggestions_def s) (simp add: demo_config_def)
  obtain resp where g: "get_suggestions demo_embedder (re_found_in True) (re_found_in False)
       demo_config built_dup ''git'' ctx_git 5 = Inr resp"
    using ne by (simp add: get_suggestions_def s Let_def)
  note t = get_suggestions_no_duplicates [OF g, unfolded rs]
  from t have d: "distinct (map command (suggestions resp))" by blast
  from t have k: "suggestions resp = keep_first_occurrences
               (map (annotate (re_found_in False) True) (rank (re_found_in True) cands_dup ctx_git 5))"
    by blast
  have c3: "map command (suggestions resp) = [''git status'', ''ls'']"
    unfolding k filter_duplicates_spec [symmetric] by (rule dup_pipeline(2))
  have c2: "map command (ranked_suggestions demo_embedder (re_found_in True) (re_found_in False)
                    demo_config built_dup ''git'' ctx_git 5)
       = [''git status'', ''git status'', ''ls'']"
    unfolding rs by (rule dup_pipeline(1))
  show ?thesis
    by (intro conjI exI [of _ resp]) (fact s c2 g c3 d)+
qed

end
